theory Spec2Isabelle
  imports Complex_Main
begin

section \<open>JSON values as the Python code sees them\<close>

text \<open>
  The decoded body of an HTTP response is a tree of Python values. Python's \<open>float\<close> is
  modelled by \<open>real\<close>: rounding, the infinities and NaN are outside the model; the
  OverflowError of an \<open>int\<close> too large for a \<open>float\<close> is in it. A \<open>dict\<close> with string
  keys is an association list read with \<open>map_of\<close>.
\<close>

datatype json =
    JNull
  | JBool bool
  | JInt int
  | JFloat real
  | JStr string
  | JList "json list"
  | JObj "(string \<times> json) list"

type_synonym dict = "(string \<times> json) list"

text \<open>\<open>d.get(k, dflt)\<close>; \<open>d.get(k)\<close> is \<open>dict_get d k JNull\<close>.\<close>

definition dict_get :: "dict \<Rightarrow> string \<Rightarrow> json \<Rightarrow> json" where
  "dict_get d k dflt = (case map_of d k of None \<Rightarrow> dflt | Some v \<Rightarrow> v)"

text \<open>Truth value of a Python object in a condition.\<close>

fun py_truthy :: "json \<Rightarrow> bool" where
  "py_truthy JNull = False"
| "py_truthy (JBool b) = b"
| "py_truthy (JInt n) = (n \<noteq> 0)"
| "py_truthy (JFloat x) = (x \<noteq> 0)"
| "py_truthy (JStr s) = (s \<noteq> [])"
| "py_truthy (JList xs) = (xs \<noteq> [])"
| "py_truthy (JObj kvs) = (kvs \<noteq> [])"

text \<open>The operand of an arithmetic operator: numbers and booleans; anything else is a TypeError.\<close>

fun num_of :: "json \<Rightarrow> real option" where
  "num_of (JInt n) = Some (real_of_int n)"
| "num_of (JFloat x) = Some x"
| "num_of (JBool b) = Some (if b then 1 else 0)"
| "num_of _ = None"

fun py_type_name :: "json \<Rightarrow> string" where
  "py_type_name JNull = ''NoneType''"
| "py_type_name (JBool _) = ''bool''"
| "py_type_name (JInt _) = ''int''"
| "py_type_name (JFloat _) = ''float''"
| "py_type_name (JStr _) = ''str''"
| "py_type_name (JList _) = ''list''"
| "py_type_name (JObj _) = ''dict''"

section \<open>Exceptions\<close>

text \<open>An exception is its class and the text \<open>str(e)\<close>.\<close>

datatype exn_class =
    Exception
  | TypeError
  | KeyError
  | AttributeError
  | TimeoutException
  | RequestError
  | HTTPStatusError
  | IntegrityError
  | OperationalError
  | OverflowError

type_synonym exn = "exn_class \<times> string"

text \<open>What the HTTP client hands back: the decoded body, or the exception it raised.\<close>

datatype 'a http_outcome = HttpOk 'a | HttpFail exn

section \<open>CountriesAPIService\<close>

text \<open>
  \<open>_process_country_data\<close>. Everything in the body runs under \<open>try\<close>; the handler prints
  \<open>country_data.get('name', 'Unknown')\<close> and returns \<open>None\<close>. A record that is not a
  \<open>dict\<close> has no \<open>get\<close>: the body raises AttributeError and so does the handler, which
  therefore leaves the function. For a \<open>dict\<close>, \<open>len(currencies)\<close> raises on a number or
  \<open>True\<close> and \<open>currencies[0]\<close> raises on a non-empty \<open>dict\<close>; both are caught. Indexing a
  string gives its first character.
\<close>

definition process_country_data :: "json \<Rightarrow> exn + dict option" where
  "process_country_data country_data =
     (case country_data of
        JObj kvs \<Rightarrow>
          (let currencies = dict_get kvs ''currencies'' (JList []);
               result = (\<lambda>currency_code. Inr (Some
                 [(''name'', dict_get kvs ''name'' (JStr '''')),
                  (''capital'', dict_get kvs ''capital'' JNull),
                  (''region'', dict_get kvs ''region'' JNull),
                  (''population'', dict_get kvs ''population'' (JInt 0)),
                  (''currency_code'', currency_code),
                  (''flag_url'', dict_get kvs ''flag'' JNull)]))
           in if \<not> py_truthy currencies then result JNull
              else (case currencies of
                      JList (first # _) \<Rightarrow>
                        (case first of
                           JObj f \<Rightarrow> result (dict_get f ''code'' JNull)
                         | JStr s \<Rightarrow> result (JStr s)
                         | _ \<Rightarrow> result JNull)
                    | JStr (c # _) \<Rightarrow> result (JStr [c])
                    | _ \<Rightarrow> Inr None))
      | _ \<Rightarrow> Inl (AttributeError,
                 [CHR 0x27] @ py_type_name country_data @ [CHR 0x27] @ '' object has no attribute '' @ [CHR 0x27] @ ''get'' @ [CHR 0x27]))"

text \<open>The loop of \<open>fetch_countries\<close>: a processed record is appended when it is truthy.\<close>

fun process_all :: "dict list \<Rightarrow> json list \<Rightarrow> exn + dict list" where
  "process_all processed_countries [] = Inr processed_countries"
| "process_all processed_countries (country_data # rest) =
     (case process_country_data country_data of
        Inl e \<Rightarrow> Inl e
      | Inr None \<Rightarrow> process_all processed_countries rest
      | Inr (Some processed_country) \<Rightarrow>
          (if processed_country \<noteq> []
           then process_all (processed_countries @ [processed_country]) rest
           else process_all processed_countries rest))"

text \<open>The three \<open>except\<close> clauses of \<open>fetch_countries\<close>, in their order.\<close>

definition countries_error :: "exn \<Rightarrow> exn" where
  "countries_error e =
     (case fst e of
        TimeoutException \<Rightarrow> (Exception, ''Countries API request timed out'')
      | RequestError \<Rightarrow> (Exception, ''Error fetching countries data: '' @ snd e)
      | _ \<Rightarrow> (Exception, ''Unexpected error fetching countries: '' @ snd e))"

definition fetch_countries :: "json list http_outcome \<Rightarrow> exn + dict list" where
  "fetch_countries response =
     (case response of
        HttpFail e \<Rightarrow> Inl (countries_error e)
      | HttpOk countries_data \<Rightarrow>
          (case process_all [] countries_data of
             Inl e \<Rightarrow> Inl (countries_error e)
           | Inr processed_countries \<Rightarrow> Inr processed_countries))"

section \<open>ExchangeRateService\<close>

text \<open>
  The body of the rate source is an object whose field \<open>rates\<close>, when present, maps currency
  codes to numbers (\<open>Dict[str, float]\<close>); \<open>data.get("rates", {})\<close> is the empty table when
  the field is missing.
\<close>

type_synonym rates = "string \<rightharpoonup> real"

definition rates_error :: "exn \<Rightarrow> exn" where
  "rates_error e =
     (case fst e of
        TimeoutException \<Rightarrow> (Exception, ''Exchange rates API request timed out'')
      | RequestError \<Rightarrow> (Exception, ''Error fetching exchange rates: '' @ snd e)
      | _ \<Rightarrow> (Exception, ''Unexpected error fetching exchange rates: '' @ snd e))"

definition fetch_exchange_rates :: "rates option http_outcome \<Rightarrow> exn + rates" where
  "fetch_exchange_rates response =
     (case response of
        HttpFail e \<Rightarrow> Inl (rates_error e)
      | HttpOk data \<Rightarrow> Inr (case data of None \<Rightarrow> Map.empty | Some r \<Rightarrow> r))"

text \<open>
  \<open>get_rate_for_currency\<close> looks the code up in upper case (\<open>str.upper\<close>, on the letters
  a to z) and swallows every exception. Refresh does not call it.
\<close>

definition upper_char :: "char \<Rightarrow> char" where
  "upper_char c =
     (case map_of (zip ''abcdefghijklmnopqrstuvwxyz'' ''ABCDEFGHIJKLMNOPQRSTUVWXYZ'') c of
        None \<Rightarrow> c
      | Some u \<Rightarrow> u)"

definition py_upper :: "string \<Rightarrow> string" where
  "py_upper s = map upper_char s"

definition get_rate_for_currency :: "rates option http_outcome \<Rightarrow> string \<Rightarrow> real option" where
  "get_rate_for_currency response currency_code =
     (case fetch_exchange_rates response of
        Inl e \<Rightarrow> None
      | Inr exchange_rates \<Rightarrow>
          if currency_code \<noteq> [] then exchange_rates (py_upper currency_code) else None)"

section \<open>The Country model and the processed record\<close>

text \<open>
  The \<open>dict\<close> that \<open>_process_country_for_db\<close> returns has a fixed set of keys, which are the
  columns of \<open>Country\<close> other than \<open>id\<close>. \<open>Country\<close> adds the primary key. The values that
  the code passes through untouched stay JSON values; \<open>datetime.utcnow()\<close> is a number read
  from a clock.
\<close>

record processed =
  name :: json
  capital :: json
  region :: json
  population :: json
  currency_code :: json
  exchange_rate :: "real option"
  estimated_gdp :: "real option"
  flag_url :: json
  last_refreshed_at :: nat

record country = processed +
  id_col :: nat

section \<open>CountryService\<close>

text \<open>
  \<open>population * random_multiplier\<close>, the right operand being a \<open>float\<close>. An \<open>int\<close> is
  converted to \<open>float\<close> first, which raises OverflowError once it rounds beyond the largest
  double; \<open>True\<close> and \<open>False\<close> count as 1 and 0; \<open>None\<close>, a string, a list or a dict raise
  TypeError.
\<close>

definition quoted :: "string \<Rightarrow> string" where
  "quoted s = [CHR 0x27] @ s @ [CHR 0x27]"

definition times_float :: "json \<Rightarrow> real \<Rightarrow> exn + real" where
  "times_float v x =
     (case v of
        JInt k \<Rightarrow>
          if \<bar>k\<bar> \<ge> 2 ^ 1024 - 2 ^ 970
          then Inl (OverflowError, ''int too large to convert to float'')
          else Inr (real_of_int k * x)
      | JFloat y \<Rightarrow> Inr (y * x)
      | JBool b \<Rightarrow> Inr ((if b then 1 else 0) * x)
      | JStr _ \<Rightarrow>
          Inl (TypeError, ''can'' @ [CHR 0x27] @ ''t multiply sequence by non-int of type ''
                 @ quoted ''float'')
      | JList _ \<Rightarrow>
          Inl (TypeError, ''can'' @ [CHR 0x27] @ ''t multiply sequence by non-int of type ''
                 @ quoted ''float'')
      | _ \<Rightarrow>
          Inl (TypeError, ''unsupported operand type(s) for *: '' @ quoted (py_type_name v)
                 @ '' and '' @ quoted ''float''))"

text \<open>
  \<open>_process_country_for_db\<close>, with the value that \<open>random.uniform(1000, 2000)\<close> returns when
  it is called and the clock reading passed in. \<open>currency_code in exchange_rates\<close> hashes the
  code: a list or a dict raises TypeError, a number is simply not a key. The product
  \<open>population * random_multiplier\<close> raises unless the population is a number, and
  \<open>country_data["name"]\<close> raises KeyError when the key is missing.
\<close>

definition process_country_for_db :: "dict \<Rightarrow> rates \<Rightarrow> real \<Rightarrow> nat \<Rightarrow> exn + processed" where
  "process_country_for_db country_data exchange_rates random_multiplier utcnow =
     (let currency_code = dict_get country_data ''currency_code'' JNull;
          result = (\<lambda>exchange_rate estimated_gdp.
            case map_of country_data ''name'' of
              None \<Rightarrow> Inl (KeyError, quoted ''name'')
            | Some n \<Rightarrow> Inr
                \<lparr>name = n,
                 capital = dict_get country_data ''capital'' JNull,
                 region = dict_get country_data ''region'' JNull,
                 population = dict_get country_data ''population'' (JInt 0),
                 currency_code = currency_code,
                 exchange_rate = exchange_rate,
                 estimated_gdp = (if estimated_gdp > 0 then Some estimated_gdp else None),
                 flag_url = dict_get country_data ''flag_url'' JNull,
                 last_refreshed_at = utcnow\<rparr>)
      in if \<not> py_truthy currency_code then result None 0
         else (case currency_code of
                 JStr code \<Rightarrow>
                   (case exchange_rates code of
                      None \<Rightarrow> result None 0
                    | Some rate \<Rightarrow>
                        if rate \<noteq> 0 \<and> rate > 0
                        then (case times_float (dict_get country_data ''population'' (JInt 0))
                                     random_multiplier of
                                Inl e \<Rightarrow> Inl e
                              | Inr product \<Rightarrow> result (Some rate) (product / rate))
                        else result (Some rate) 0)
               | JList _ \<Rightarrow> Inl (TypeError, ''unhashable type: '' @ quoted ''list'')
               | JObj _ \<Rightarrow> Inl (TypeError, ''unhashable type: '' @ quoted ''dict'')
               | _ \<Rightarrow> result None 0))"

text \<open>
  \<open>_update_country\<close>: every key of the processed record is an attribute of \<open>Country\<close>, so
  every one of them is assigned, \<open>name\<close> and \<open>last_refreshed_at\<close> included; \<open>id\<close> is not a key.
\<close>

definition update_country :: "country \<Rightarrow> processed \<Rightarrow> country" where
  "update_country existing_country new_data =
     existing_country
       \<lparr>name := name new_data,
        capital := capital new_data,
        region := region new_data,
        population := population new_data,
        currency_code := currency_code new_data,
        exchange_rate := exchange_rate new_data,
        estimated_gdp := estimated_gdp new_data,
        flag_url := flag_url new_data,
        last_refreshed_at := last_refreshed_at new_data\<rparr>"

subsection \<open>The database session\<close>

text \<open>
  The session is made with \<open>autoflush=False\<close>: a query reads the rows of the table as they
  were at the start of the transaction, and returns for a row the object of the identity map
  (keyed by primary key) when the row was loaded and changed before. Objects given to
  \<open>add\<close> wait in the session until \<open>commit\<close> and are not seen by queries.
\<close>

record session =
  table :: "country list"
  identity_map :: "nat \<rightharpoonup> country"
  new_objects :: "processed list"

definition begin_session :: "country list \<Rightarrow> session" where
  "begin_session rows = \<lparr>table = rows, identity_map = Map.empty, new_objects = []\<rparr>"

text \<open>SQL \<open>LOWER\<close> on the letters A to Z.\<close>

definition lower_char :: "char \<Rightarrow> char" where
  "lower_char c =
     (case map_of (zip ''ABCDEFGHIJKLMNOPQRSTUVWXYZ'' ''abcdefghijklmnopqrstuvwxyz'') c of
        None \<Rightarrow> c
      | Some l \<Rightarrow> l)"

definition sql_lower :: "string \<Rightarrow> string" where
  "sql_lower s = map lower_char s"

text \<open>
  \<open>func.lower(Country.name) == func.lower(x)\<close>. A \<open>NULL\<close> on either side never compares
  equal; the model lets only strings match.
\<close>

fun name_matches :: "json \<Rightarrow> json \<Rightarrow> bool" where
  "name_matches (JStr a) (JStr b) = (sql_lower a = sql_lower b)"
| "name_matches _ _ = False"

definition loaded :: "session \<Rightarrow> country \<Rightarrow> country" where
  "loaded s row = (case identity_map s (id_col row) of None \<Rightarrow> row | Some obj \<Rightarrow> obj)"

definition get_country_by_name :: "session \<Rightarrow> json \<Rightarrow> country option" where
  "get_country_by_name s n =
     (case find (\<lambda>row. name_matches (name row) n) (table s) of
        None \<Rightarrow> None
      | Some row \<Rightarrow> Some (loaded s row))"

text \<open>One round of the loop of \<open>refresh_countries_data\<close>, after the record was processed.\<close>

definition upsert :: "session \<times> nat \<times> nat \<Rightarrow> processed \<Rightarrow> session \<times> nat \<times> nat" where
  "upsert st processed_country =
     (case st of (s, countries_updated, countries_added) \<Rightarrow>
        (case get_country_by_name s (name processed_country) of
           Some existing_country \<Rightarrow>
             (s\<lparr>identity_map := (identity_map s)
                   (id_col existing_country \<mapsto> update_country existing_country processed_country)\<rparr>,
              countries_updated + 1, countries_added)
         | None \<Rightarrow>
             (s\<lparr>new_objects := new_objects s @ [processed_country]\<rparr>,
              countries_updated, countries_added + 1)))"

text \<open>
  The loop. The \<open>i\<close>-th record gets the \<open>i\<close>-th draw of the random generator and the
  \<open>i\<close>-th clock reading. An exception leaves the loop with the session as it is.
\<close>

fun refresh_loop ::
  "rates \<Rightarrow> (nat \<Rightarrow> real) \<Rightarrow> (nat \<Rightarrow> nat) \<Rightarrow> nat \<Rightarrow> session \<times> nat \<times> nat \<Rightarrow> dict list
     \<Rightarrow> (exn + unit) \<times> session \<times> nat \<times> nat" where
  "refresh_loop exchange_rates uniform clock i st [] = (Inr (), st)"
| "refresh_loop exchange_rates uniform clock i st (country_data # rest) =
     (case process_country_for_db country_data exchange_rates (uniform i) (clock i) of
        Inl e \<Rightarrow> (Inl e, st)
      | Inr processed_country \<Rightarrow>
          refresh_loop exchange_rates uniform clock (Suc i) (upsert st processed_country) rest)"

text \<open>
  \<open>commit\<close> flushes the session: the changed objects replace their rows and the new objects
  are inserted with fresh keys (one more than the largest key present stands for
  \<open>autoincrement\<close>). The flush fails when the database cannot be reached or when a declared
  constraint is violated: \<open>name\<close> is a \<open>String\<close> column with \<open>nullable=False\<close> and
  \<open>unique=True\<close>, \<open>population\<close> has \<open>nullable=False\<close>. Whether the unique index compares
  names with or without case is the collation of the database, a parameter here. Other
  checks of the engine (lengths, coercions) are outside the model: a name that is not a
  string is refused here, where the driver would bind a number as text.
\<close>

definition new_country :: "processed \<Rightarrow> nat \<Rightarrow> country" where
  "new_country p i =
     \<lparr>name = name p, capital = capital p, region = region p, population = population p,
      currency_code = currency_code p, exchange_rate = exchange_rate p,
      estimated_gdp = estimated_gdp p, flag_url = flag_url p,
      last_refreshed_at = last_refreshed_at p, id_col = i\<rparr>"

definition next_id :: "country list \<Rightarrow> nat" where
  "next_id rows = Suc (foldr max (map id_col rows) 0)"

fun insert_all :: "nat \<Rightarrow> processed list \<Rightarrow> country list" where
  "insert_all i [] = []"
| "insert_all i (p # ps) = new_country p i # insert_all (Suc i) ps"

definition flushed :: "session \<Rightarrow> country list" where
  "flushed s = map (loaded s) (table s) @ insert_all (next_id (table s)) (new_objects s)"

fun is_str :: "json \<Rightarrow> bool" where
  "is_str (JStr _) = True"
| "is_str _ = False"

fun index_key :: "bool \<Rightarrow> json \<Rightarrow> string" where
  "index_key case_insensitive (JStr s) = (if case_insensitive then sql_lower s else s)"
| "index_key case_insensitive _ = []"

definition constraints_ok :: "bool \<Rightarrow> country list \<Rightarrow> bool" where
  "constraints_ok case_insensitive rows =
     (list_all (\<lambda>r. is_str (name r) \<and> population r \<noteq> JNull) rows
      \<and> distinct (map (\<lambda>r. index_key case_insensitive (name r)) rows))"

definition commit :: "bool \<Rightarrow> bool \<Rightarrow> session \<Rightarrow> (exn + unit) \<times> session" where
  "commit db_ok case_insensitive s =
     (if \<not> db_ok then (Inl (OperationalError, ''database unavailable''), s)
      else if \<not> constraints_ok case_insensitive (flushed s)
      then (Inl (IntegrityError, ''constraint violated''), s)
      else (Inr (), begin_session (flushed s)))"

text \<open>\<open>rollback\<close> forgets every change and every new object of the session.\<close>

definition rollback :: "session \<Rightarrow> session" where
  "rollback s = begin_session (table s)"

subsection \<open>refresh_countries_data\<close>

text \<open>
  What one invocation gets from outside: the two HTTP answers, the draws of
  \<open>random.uniform(1000, 2000)\<close>, the clock, and the database's availability and collation.
\<close>

record world =
  countries_response :: "json list http_outcome"
  rates_response :: "rates option http_outcome"
  uniform :: "nat \<Rightarrow> real"
  utcnow :: "nat \<Rightarrow> nat"
  db_ok :: bool
  ci_index :: bool

text \<open>
  The whole body is under \<open>try\<close>; the handler rolls back and raises
  \<open>Exception("Failed to refresh countries data: " + str(e))\<close>. The result is
  \<open>(countries_updated, countries_added)\<close>.
\<close>

definition refresh_failed :: "exn \<Rightarrow> session \<Rightarrow> (exn + nat \<times> nat) \<times> session" where
  "refresh_failed e s =
     (Inl (Exception, ''Failed to refresh countries data: '' @ snd e), rollback s)"

definition refresh_countries_data :: "world \<Rightarrow> session \<Rightarrow> (exn + nat \<times> nat) \<times> session" where
  "refresh_countries_data w s =
     (case fetch_countries (countries_response w) of
        Inl e \<Rightarrow> refresh_failed e s
      | Inr countries_data \<Rightarrow>
          (case fetch_exchange_rates (rates_response w) of
             Inl e \<Rightarrow> refresh_failed e s
           | Inr exchange_rates \<Rightarrow>
               (case refresh_loop exchange_rates (uniform w) (utcnow w) 0 (s, 0, 0) countries_data of
                  (Inl e, (s', _, _)) \<Rightarrow> refresh_failed e s'
                | (Inr _, (s', countries_updated, countries_added)) \<Rightarrow>
                    (case commit (db_ok w) (ci_index w) s' of
                       (Inl e, s'') \<Rightarrow> refresh_failed e s''
                     | (Inr _, s'') \<Rightarrow> (Inr (countries_updated, countries_added), s'')))))"

text \<open>
  \<open>delete_country_by_name\<close>: the row found by the case-insensitive lookup is deleted and
  the session committed.
\<close>

definition delete_country_by_name :: "bool \<Rightarrow> session \<Rightarrow> json \<Rightarrow> (exn + bool) \<times> session" where
  "delete_country_by_name ok s n =
     (case get_country_by_name s n of
        None \<Rightarrow> (Inr False, s)
      | Some c \<Rightarrow>
          if ok
          then (Inr True, begin_session (filter (\<lambda>r. id_col r \<noteq> id_col c) (flushed s)))
          else (Inl (OperationalError, ''database unavailable''), s))"

subsection \<open>An invariant of the session during the loop\<close>

text \<open>
  \<open>tracked s N\<close>: every object of the identity map sits under its own primary key, and
  belongs to a row of the table whose name matches both the object's present name and one
  of the names \<open>N\<close> looked up so far.
\<close>

definition tracked :: "session \<Rightarrow> json set \<Rightarrow> bool" where
  "tracked s N =
     (\<forall>k obj. identity_map s k = Some obj \<longrightarrow>
        id_col obj = k \<and>
        (\<exists>row \<in> set (table s). id_col row = k \<and> name_matches (name row) (name obj)
           \<and> (\<exists>n \<in> N. name_matches (name row) n)))"

section \<open>Properties of the derived estimate\<close>

lemma times_float_num:
  "times_float v x = Inr y \<Longrightarrow> \<exists>pop. num_of v = Some pop \<and> y = pop * x"
  by (cases v) (auto simp: times_float_def split: if_splits)

text \<open>
  Where the population is a number that fits a \<open>float\<close>, the record is produced and its
  estimate is \<open>population * m / r\<close> when that is positive; a record produced without a
  positive rate for its code, be the rate missing or not positive, has no estimate.
\<close>

lemma estimated_gdp_where_population_is_number:
  "(map_of cd ''name'' = Some n \<and> dict_get cd ''currency_code'' JNull = JStr code \<and> code \<noteq> []
      \<and> rates code = Some r \<and> 0 < r
      \<and> times_float (dict_get cd ''population'' (JInt 0)) m = Inr (pop * m)
    \<longrightarrow> (\<exists>p. process_country_for_db cd rates m t = Inr p
          \<and> exchange_rate p = Some r
          \<and> estimated_gdp p = (if 0 < (pop * m) / r then Some ((pop * m) / r) else None)))
   \<and> (process_country_for_db cd rates m t = Inr q
        \<and> \<not> (\<exists>code r. dict_get cd ''currency_code'' JNull = JStr code \<and> rates code = Some r
                   \<and> 0 < r)
        \<longrightarrow> estimated_gdp q = None)"
proof (intro conjI impI)
  assume "map_of cd ''name'' = Some n \<and> dict_get cd ''currency_code'' JNull = JStr code \<and> code \<noteq> []
      \<and> rates code = Some r \<and> 0 < r
      \<and> times_float (dict_get cd ''population'' (JInt 0)) m = Inr (pop * m)"
  then show "\<exists>p. process_country_for_db cd rates m t = Inr p
          \<and> exchange_rate p = Some r
          \<and> estimated_gdp p = (if 0 < (pop * m) / r then Some ((pop * m) / r) else None)"
    by (simp add: process_country_for_db_def)
next
  assume "process_country_for_db cd rates m t = Inr q
        \<and> \<not> (\<exists>code r. dict_get cd ''currency_code'' JNull = JStr code \<and> rates code = Some r
                   \<and> 0 < r)"
  then show "estimated_gdp q = None"
    by (auto simp: process_country_for_db_def Let_def
             split: if_splits json.splits option.splits sum.splits)
qed

text \<open>
  C3. The claim fails on the code for a normalised country whose population is not a
  number. The normaliser hands a population of \<open>null\<close> through
  (\<open>country_data.get("population", 0)\<close> replaces a missing key only); with a positive rate
  for the country's currency the product \<open>population * random_multiplier\<close> raises
  TypeError, no processed record and no estimate is produced, and the refresh is aborted
  and rolled back, a record processed before it included.
\<close>

theorem null_population_aborts_refresh:
  "process_country_data
     (JObj [(''name'', JStr ''Chad''), (''population'', JNull),
            (''currencies'', JList [JObj [(''code'', JStr ''XAF'')]])])
   = Inr (Some [(''name'', JStr ''Chad''), (''capital'', JNull), (''region'', JNull),
                (''population'', JNull), (''currency_code'', JStr ''XAF''),
                (''flag_url'', JNull)])
   \<and> process_country_for_db
       [(''name'', JStr ''Chad''), (''capital'', JNull), (''region'', JNull),
        (''population'', JNull), (''currency_code'', JStr ''XAF''), (''flag_url'', JNull)]
       [''XAF'' \<mapsto> 600] 1500 7
     = Inl (TypeError,
            ''unsupported operand type(s) for *: '' @ quoted ''NoneType'' @ '' and ''
              @ quoted ''float'')
   \<and> refresh_countries_data
       \<lparr>countries_response = HttpOk
          [JObj [(''name'', JStr ''Nigeria''), (''population'', JInt 1000000),
                 (''currencies'', JList [JObj [(''code'', JStr ''NGN'')]])],
           JObj [(''name'', JStr ''Chad''), (''population'', JNull),
                 (''currencies'', JList [JObj [(''code'', JStr ''XAF'')]])]],
        rates_response = HttpOk (Some [''NGN'' \<mapsto> 2, ''XAF'' \<mapsto> 600]),
        uniform = (\<lambda>i. 1500), utcnow = (\<lambda>i. 7), db_ok = True, ci_index = True\<rparr>
       (begin_session [])
     = (Inl (Exception,
             ''Failed to refresh countries data: unsupported operand type(s) for *: ''
               @ quoted ''NoneType'' @ '' and '' @ quoted ''float''),
        begin_session [])"
  by (simp add: refresh_countries_data_def fetch_countries_def process_country_data_def
        dict_get_def fetch_exchange_rates_def process_country_for_db_def times_float_def
        upsert_def get_country_by_name_def begin_session_def refresh_failed_def rollback_def)

text \<open>
  C6. A processed record carries an estimate only when its currency code resolved to a
  positive exchange rate and its population is a positive number (the draw of
  \<open>random.uniform(1000, 2000)\<close> lies between 1000 and 2000); the entry that refresh
  writes from the record, new or updated, carries the same estimate.
\<close>

theorem estimated_gdp_needs_rate_and_population:
  assumes "process_country_for_db cd rates m t = Inr p"
      and "1000 \<le> m" and "m \<le> 2000"
      and "estimated_gdp p = Some g"
  shows "(\<exists>code r pop. currency_code p = JStr code \<and> rates code = Some r \<and> 0 < r
            \<and> exchange_rate p = Some r
            \<and> num_of (population p) = Some pop \<and> 0 < pop \<and> g = (pop * m) / r \<and> 0 < g)
         \<and> estimated_gdp (new_country p i) = Some g
         \<and> estimated_gdp (update_country e p) = Some g"
proof -
  have m: "0 < m" using assms(2) by simp
  have "\<exists>code r pop. currency_code p = JStr code \<and> rates code = Some r \<and> 0 < r
            \<and> exchange_rate p = Some r
            \<and> num_of (population p) = Some pop \<and> 0 < pop \<and> g = (pop * m) / r \<and> 0 < g"
    using assms(1,4) m
    by (auto simp: process_country_for_db_def Let_def zero_less_divide_iff zero_less_mult_iff
             split: if_splits json.splits option.splits sum.splits
             dest!: times_float_num)
  then show ?thesis using assms(4) by (simp add: new_country_def update_country_def)
qed

theorem estimated_gdp_needs_rate_and_population_witness:
  "\<exists>code r pop. currency_code \<lparr>name = JStr ''Nigeria'', capital = JNull, region = JNull,
        population = JInt 1000000, currency_code = JStr ''NGN'', exchange_rate = Some 2,
        estimated_gdp = Some 750000000, flag_url = JNull, last_refreshed_at = 7\<rparr> = JStr code
      \<and> [''NGN'' \<mapsto> (2::real)] code = Some r \<and> 0 < r \<and> num_of (JInt 1000000) = Some pop \<and> 0 < pop"
proof -
  let ?p = "\<lparr>name = JStr ''Nigeria'', capital = JNull, region = JNull,
        population = JInt 1000000, currency_code = JStr ''NGN'', exchange_rate = Some 2,
        estimated_gdp = Some 750000000, flag_url = JNull, last_refreshed_at = 7\<rparr>"
  have a: "process_country_for_db
          [(''name'', JStr ''Nigeria''), (''population'', JInt 1000000), (''currency_code'', JStr ''NGN'')]
          [''NGN'' \<mapsto> 2] 1500 7 = Inr ?p"
    by (simp add: process_country_for_db_def dict_get_def times_float_def)
  have b: "(1000::real) \<le> 1500" "(1500::real) \<le> 2000" "estimated_gdp ?p = Some 750000000"
    by simp_all
  from estimated_gdp_needs_rate_and_population [OF a b]
  show ?thesis by simp
qed



section \<open>Properties of the normaliser\<close>

lemma process_country_data_nonempty:
  "process_country_data x = Inr (Some d) \<Longrightarrow> d \<noteq> []"
  by (auto simp: process_country_data_def Let_def split: json.splits list.splits if_splits)

lemma process_all_kept:
  "process_all acc xs = Inr ds \<Longrightarrow>
     ds = acc @ List.map_filter
                  (\<lambda>x. case process_country_data x of Inl e \<Rightarrow> None | Inr r \<Rightarrow> r) xs"
proof (induction xs arbitrary: acc)
  case Nil
  then show ?case by (simp add: List.map_filter_simps)
next
  case (Cons x xs)
  show ?case
  proof (cases "process_country_data x")
    case (Inl e)
    with Cons.prems show ?thesis by simp
  next
    case (Inr r)
    show ?thesis
    proof (cases r)
      case None
      with Inr Cons.prems Cons.IH [of acc] show ?thesis
        by (simp add: List.map_filter_simps)
    next
      case (Some d)
      with Inr have "d \<noteq> []" by (simp add: process_country_data_nonempty)
      with Some Inr Cons.prems Cons.IH [of "acc @ [d]"] show ?thesis
        by (simp add: List.map_filter_simps)
    qed
  qed
qed

text \<open>
  C4. The claim fails on the code: a raw record without a name is not rejected. The
  normaliser reads the name with \<open>country_data.get("name", "")\<close> and \<open>fetch_countries\<close>
  skips only a \<open>None\<close> result, so the record is processed with the empty string as its
  name, next to the other records of the feed. A refresh stores it as an entry with an
  empty name, and a feed with two such records is refused by the unique index on the name,
  whatever the collation, so that the whole refresh raises.
\<close>

theorem nameless_record_not_dropped:
  "fetch_countries (HttpOk [JObj [(''capital'', JStr ''Paris'')], JObj [(''name'', JStr ''Chad'')]])
     = Inr [[(''name'', JStr ''''), (''capital'', JStr ''Paris''), (''region'', JNull),
             (''population'', JInt 0), (''currency_code'', JNull), (''flag_url'', JNull)],
            [(''name'', JStr ''Chad''), (''capital'', JNull), (''region'', JNull),
             (''population'', JInt 0), (''currency_code'', JNull), (''flag_url'', JNull)]]
   \<and> refresh_countries_data
       \<lparr>countries_response = HttpOk [JObj [(''capital'', JStr ''Paris'')]],
        rates_response = HttpOk None, uniform = (\<lambda>i. 1500), utcnow = (\<lambda>i. 7),
        db_ok = True, ci_index = True\<rparr>
       (begin_session [])
     = (Inr (0, 1),
        begin_session
          [\<lparr>name = JStr '''', capital = JStr ''Paris'', region = JNull, population = JInt 0,
            currency_code = JNull, exchange_rate = None, estimated_gdp = None,
            flag_url = JNull, last_refreshed_at = 7, id_col = 1\<rparr>])
   \<and> refresh_countries_data
       \<lparr>countries_response = HttpOk [JObj [(''capital'', JStr ''Paris'')],
                                      JObj [(''capital'', JStr ''Rome'')]],
        rates_response = HttpOk None, uniform = (\<lambda>i. 1500), utcnow = (\<lambda>i. 7),
        db_ok = True, ci_index = True\<rparr>
       (begin_session [])
     = (Inl (Exception, ''Failed to refresh countries data: constraint violated''),
        begin_session [])
   \<and> refresh_countries_data
       \<lparr>countries_response = HttpOk [JObj [(''capital'', JStr ''Paris'')],
                                      JObj [(''capital'', JStr ''Rome'')]],
        rates_response = HttpOk None, uniform = (\<lambda>i. 1500), utcnow = (\<lambda>i. 7),
        db_ok = True, ci_index = False\<rparr>
       (begin_session [])
     = (Inl (Exception, ''Failed to refresh countries data: constraint violated''),
        begin_session [])"
  by (simp add: refresh_countries_data_def fetch_countries_def process_country_data_def
        dict_get_def fetch_exchange_rates_def process_country_for_db_def upsert_def
        get_country_by_name_def begin_session_def sql_lower_def lower_char_def loaded_def
        commit_def flushed_def constraints_ok_def next_id_def new_country_def
        refresh_failed_def rollback_def)






text \<open>
  C8. The claim fails on the code: the currency code is never put in upper case. The
  code \<open>"eur"\<close> of a structured currency element stays \<open>"eur"\<close> in the normalised and in
  the processed record; the rate table, keyed \<open>"EUR"\<close>, is then read with \<open>"eur"\<close> and
  gives no rate, hence no estimate. \<open>get_rate_for_currency\<close> reads the same table with
  the code in upper case and finds the rate.
\<close>

theorem lower_case_currency_code_kept:
  "process_country_data
     (JObj [(''name'', JStr ''France''), (''population'', JInt 1000000),
            (''currencies'', JList [JObj [(''code'', JStr ''eur'')]])])
   = Inr (Some [(''name'', JStr ''France''), (''capital'', JNull), (''region'', JNull),
                (''population'', JInt 1000000), (''currency_code'', JStr ''eur''),
                (''flag_url'', JNull)])
   \<and> process_country_for_db
       [(''name'', JStr ''France''), (''capital'', JNull), (''region'', JNull),
        (''population'', JInt 1000000), (''currency_code'', JStr ''eur''), (''flag_url'', JNull)]
       [''EUR'' \<mapsto> 2] 1500 7
     = Inr \<lparr>name = JStr ''France'', capital = JNull, region = JNull,
            population = JInt 1000000, currency_code = JStr ''eur'', exchange_rate = None,
            estimated_gdp = None, flag_url = JNull, last_refreshed_at = 7\<rparr>
   \<and> py_upper ''eur'' = ''EUR''
   \<and> JStr ''eur'' \<noteq> JStr (py_upper ''eur'')
   \<and> get_rate_for_currency (HttpOk (Some [''EUR'' \<mapsto> 2])) ''eur'' = Some 2"
  by (simp add: process_country_data_def dict_get_def process_country_for_db_def
        py_upper_def upper_char_def get_rate_for_currency_def fetch_exchange_rates_def)

section \<open>Properties of refresh\<close>

lemma upsert_table: "table (fst (upsert st p)) = table (fst st)"
  by (cases st) (simp add: upsert_def split: option.splits)

lemma refresh_loop_table:
  "table (fst (snd (refresh_loop R U C i st xs))) = table (fst st)"
  by (induction xs arbitrary: i st) (simp_all add: upsert_table split: sum.splits)

lemma upsert_counts:
  "upsert (s, u, a) p = (s', u', a') \<Longrightarrow> u' + a' = Suc (u + a)"
  by (auto simp: upsert_def split: option.splits)

lemma refresh_loop_counts:
  "refresh_loop R U C i (s, u, a) xs = (Inr x, (s', u', a')) \<Longrightarrow> u' + a' = u + a + length xs"
proof (induction xs arbitrary: i s u a)
  case Nil
  then show ?case by simp
next
  case (Cons c cs)
  then obtain p where p: "process_country_for_db c R (U i) (C i) = Inr p"
    by (auto split: sum.splits)
  obtain s1 u1 a1 where st: "upsert (s, u, a) p = (s1, u1, a1)"
    by (cases "upsert (s, u, a) p") auto
  with p Cons.prems have "refresh_loop R U C (Suc i) (s1, u1, a1) cs = (Inr x, (s', u', a'))"
    by simp
  from Cons.IH [OF this] upsert_counts [OF st] show ?case by simp
qed

lemma commit_table: "commit ok ci s = (Inl e, s') \<Longrightarrow> s' = s"
  by (auto simp: commit_def split: if_splits)

lemma refresh_failure_rolls_back:
  assumes "fst (refresh_countries_data w s) = Inl e"
  shows "snd (refresh_countries_data w s) = begin_session (table s)"
proof (cases "fetch_countries (countries_response w)")
  case (Inl e1)
  then show ?thesis
    by (simp add: refresh_countries_data_def refresh_failed_def rollback_def)
next
  case cs: (Inr cs)
  show ?thesis
  proof (cases "fetch_exchange_rates (rates_response w)")
    case (Inl e2)
    with cs show ?thesis
      by (simp add: refresh_countries_data_def refresh_failed_def rollback_def)
  next
    case R: (Inr R)
    obtain r s1 u a where
      loop: "refresh_loop R (uniform w) (utcnow w) 0 (s, 0, 0) cs = (r, (s1, u, a))"
      by (metis prod_cases3)
    have t: "table s1 = table s"
      using refresh_loop_table [of R "uniform w" "utcnow w" 0 "(s, 0, 0)" cs] loop by simp
    show ?thesis
    proof (cases r)
      case (Inl e3)
      with cs R loop t show ?thesis
        by (simp add: refresh_countries_data_def refresh_failed_def rollback_def)
    next
      case ok: (Inr x)
      obtain rc s2 where c: "commit (db_ok w) (ci_index w) s1 = (rc, s2)"
        by (cases "commit (db_ok w) (ci_index w) s1") auto
      show ?thesis
      proof (cases rc)
        case (Inl e4)
        with c have "s2 = s1" by (simp add: commit_table)
        with cs R loop t ok c Inl show ?thesis
          by (simp add: refresh_countries_data_def refresh_failed_def rollback_def)
      next
        case (Inr y)
        with cs R loop ok c assms show ?thesis
          by (simp add: refresh_countries_data_def)
      qed
    qed
  qed
qed

lemma refresh_success_commits:
  assumes "fst (refresh_countries_data w s) = Inr (u, a)"
  shows "\<exists>cs R s1. fetch_countries (countries_response w) = Inr cs
           \<and> fetch_exchange_rates (rates_response w) = Inr R
           \<and> refresh_loop R (uniform w) (utcnow w) 0 (s, 0, 0) cs = (Inr (), (s1, u, a))
           \<and> commit (db_ok w) (ci_index w) s1 = (Inr (), snd (refresh_countries_data w s))"
proof (cases "fetch_countries (countries_response w)")
  case (Inl e1)
  with assms show ?thesis
    by (simp add: refresh_countries_data_def refresh_failed_def)
next
  case cs: (Inr cs)
  show ?thesis
  proof (cases "fetch_exchange_rates (rates_response w)")
    case (Inl e2)
    with cs assms show ?thesis
      by (simp add: refresh_countries_data_def refresh_failed_def)
  next
    case R: (Inr R)
    obtain r s1 u1 a1 where
      loop: "refresh_loop R (uniform w) (utcnow w) 0 (s, 0, 0) cs = (r, (s1, u1, a1))"
      by (metis prod_cases3)
    show ?thesis
    proof (cases r)
      case (Inl e3)
      with cs R loop assms show ?thesis
        by (simp add: refresh_countries_data_def refresh_failed_def)
    next
      case ok: (Inr x)
      obtain rc s2 where c: "commit (db_ok w) (ci_index w) s1 = (rc, s2)"
        by (cases "commit (db_ok w) (ci_index w) s1") auto
      show ?thesis
      proof (cases rc)
        case (Inl e4)
        with cs R loop ok c assms show ?thesis
          by (simp add: refresh_countries_data_def refresh_failed_def)
      next
        case (Inr y)
        with cs R loop ok c assms show ?thesis
          by (simp add: refresh_countries_data_def)
      qed
    qed
  qed
qed



lemma source_errors_differ: "countries_error e \<noteq> rates_error e'"
  by (cases "fst e"; cases "fst e'") (simp_all add: countries_error_def rates_error_def)

text \<open>
  C1. A refresh changes the table all or nothing. When the country fetch fails, or the
  rate fetch fails after the countries were fetched, the refresh raises an exception whose
  text is that of the failing fetcher behind a fixed prefix (the texts of the two fetchers
  never coincide) and the session is rolled back to the table as it was. When the commit
  fails, because the database is unreachable or a constraint is violated, the exception
  carries the database's text and the session is rolled back likewise. Whenever refresh
  raises, the table is the one it started with: the table changes only through a commit
  that succeeded.
\<close>

theorem refresh_all_or_nothing:
  "(countries_response w = HttpFail e
      \<longrightarrow> refresh_countries_data w s
            = (Inl (Exception, ''Failed to refresh countries data: '' @ snd (countries_error e)),
               begin_session (table s)))
   \<and> (fetch_countries (countries_response w) = Inr cs \<and> rates_response w = HttpFail e
      \<longrightarrow> refresh_countries_data w s
            = (Inl (Exception, ''Failed to refresh countries data: '' @ snd (rates_error e)),
               begin_session (table s)))
   \<and> countries_error e \<noteq> rates_error e'
   \<and> (fetch_countries (countries_response w) = Inr cs
        \<and> fetch_exchange_rates (rates_response w) = Inr R
        \<and> refresh_loop R (uniform w) (utcnow w) 0 (s, 0, 0) cs = (Inr (), (s1, u, a))
        \<and> commit (db_ok w) (ci_index w) s1 = (Inl x, s2)
      \<longrightarrow> fst x \<in> {OperationalError, IntegrityError}
          \<and> refresh_countries_data w s
            = (Inl (Exception, ''Failed to refresh countries data: '' @ snd x),
               begin_session (table s)))
   \<and> (fst (refresh_countries_data w s) = Inl x
      \<longrightarrow> snd (refresh_countries_data w s) = begin_session (table s))
   \<and> (table (snd (refresh_countries_data w s)) \<noteq> table s
      \<longrightarrow> (\<exists>u a s1. fst (refresh_countries_data w s) = Inr (u, a)
             \<and> commit (db_ok w) (ci_index w) s1 = (Inr (), snd (refresh_countries_data w s))))"
proof (intro conjI impI)
  assume "countries_response w = HttpFail e"
  then show "refresh_countries_data w s
            = (Inl (Exception, ''Failed to refresh countries data: '' @ snd (countries_error e)),
               begin_session (table s))"
    by (simp add: refresh_countries_data_def fetch_countries_def refresh_failed_def rollback_def)
next
  assume "fetch_countries (countries_response w) = Inr cs \<and> rates_response w = HttpFail e"
  then show "refresh_countries_data w s
            = (Inl (Exception, ''Failed to refresh countries data: '' @ snd (rates_error e)),
               begin_session (table s))"
    by (simp add: refresh_countries_data_def fetch_exchange_rates_def refresh_failed_def
        rollback_def)
next
  show "countries_error e \<noteq> rates_error e'" by (rule source_errors_differ)
next
  assume h: "fetch_countries (countries_response w) = Inr cs
        \<and> fetch_exchange_rates (rates_response w) = Inr R
        \<and> refresh_loop R (uniform w) (utcnow w) 0 (s, 0, 0) cs = (Inr (), (s1, u, a))
        \<and> commit (db_ok w) (ci_index w) s1 = (Inl x, s2)"
  then show "fst x \<in> {OperationalError, IntegrityError}"
    by (auto simp: commit_def split: if_splits)
  from h have "s2 = s1" by (auto dest: commit_table)
  moreover have "table s1 = table s"
    using refresh_loop_table [of R "uniform w" "utcnow w" 0 "(s, 0, 0)" cs] h by simp
  ultimately show "refresh_countries_data w s
            = (Inl (Exception, ''Failed to refresh countries data: '' @ snd x),
               begin_session (table s))"
    using h by (simp add: refresh_countries_data_def refresh_failed_def rollback_def)
next
  assume "fst (refresh_countries_data w s) = Inl x"
  then show "snd (refresh_countries_data w s) = begin_session (table s)"
    by (rule refresh_failure_rolls_back)
next
  assume ch: "table (snd (refresh_countries_data w s)) \<noteq> table s"
  show "\<exists>u a s1. fst (refresh_countries_data w s) = Inr (u, a)
             \<and> commit (db_ok w) (ci_index w) s1 = (Inr (), snd (refresh_countries_data w s))"
  proof (cases "fst (refresh_countries_data w s)")
    case (Inl x)
    from refresh_failure_rolls_back [OF this] ch show ?thesis
      by (simp add: begin_session_def)
  next
    case (Inr c)
    then obtain u a where "fst (refresh_countries_data w s) = Inr (u, a)"
      by (cases c) auto
    from this refresh_success_commits [OF this] show ?thesis by blast
  qed
qed

theorem refresh_all_or_nothing_witness:
  "refresh_countries_data
     \<lparr>countries_response = HttpFail (TimeoutException, ''timed out''),
      rates_response = HttpOk None, uniform = (\<lambda>i. 1500), utcnow = (\<lambda>i. 7),
      db_ok = True, ci_index = True\<rparr>
     (begin_session
        [\<lparr>name = JStr ''Nigeria'', capital = JNull, region = JNull, population = JInt 5,
          currency_code = JNull, exchange_rate = None, estimated_gdp = None, flag_url = JNull,
          last_refreshed_at = 1, id_col = 1\<rparr>])
   = (Inl (Exception, ''Failed to refresh countries data: Countries API request timed out''),
      begin_session
        [\<lparr>name = JStr ''Nigeria'', capital = JNull, region = JNull, population = JInt 5,
          currency_code = JNull, exchange_rate = None, estimated_gdp = None, flag_url = JNull,
          last_refreshed_at = 1, id_col = 1\<rparr>])
   \<and> refresh_countries_data
     \<lparr>countries_response = HttpOk [JObj [(''name'', JStr ''Chad'')]],
      rates_response = HttpFail (RequestError, ''connection refused''),
      uniform = (\<lambda>i. 1500), utcnow = (\<lambda>i. 7), db_ok = True, ci_index = True\<rparr>
     (begin_session
        [\<lparr>name = JStr ''Nigeria'', capital = JNull, region = JNull, population = JInt 5,
          currency_code = JNull, exchange_rate = None, estimated_gdp = None, flag_url = JNull,
          last_refreshed_at = 1, id_col = 1\<rparr>])
   = (Inl (Exception,
        ''Failed to refresh countries data: Error fetching exchange rates: connection refused''),
      begin_session
        [\<lparr>name = JStr ''Nigeria'', capital = JNull, region = JNull, population = JInt 5,
          currency_code = JNull, exchange_rate = None, estimated_gdp = None, flag_url = JNull,
          last_refreshed_at = 1, id_col = 1\<rparr>])
   \<and> refresh_countries_data
     \<lparr>countries_response = HttpOk [JObj [(''name'', JStr ''Chad'')]],
      rates_response = HttpOk None,
      uniform = (\<lambda>i. 1500), utcnow = (\<lambda>i. 7), db_ok = False, ci_index = True\<rparr>
     (begin_session
        [\<lparr>name = JStr ''Nigeria'', capital = JNull, region = JNull, population = JInt 5,
          currency_code = JNull, exchange_rate = None, estimated_gdp = None, flag_url = JNull,
          last_refreshed_at = 1, id_col = 1\<rparr>])
   = (Inl (Exception, ''Failed to refresh countries data: database unavailable''),
      begin_session
        [\<lparr>name = JStr ''Nigeria'', capital = JNull, region = JNull, population = JInt 5,
          currency_code = JNull, exchange_rate = None, estimated_gdp = None, flag_url = JNull,
          last_refreshed_at = 1, id_col = 1\<rparr>])"
proof -
  let ?ng = "\<lparr>name = JStr ''Nigeria'', capital = JNull, region = JNull, population = JInt 5,
          currency_code = JNull, exchange_rate = None, estimated_gdp = None, flag_url = JNull,
          last_refreshed_at = 1, id_col = 1\<rparr>"
  let ?chad = "[(''name'', JStr ''Chad''), (''capital'', JNull), (''region'', JNull),
               (''population'', JInt 0), (''currency_code'', JNull), (''flag_url'', JNull)]"
  let ?p = "\<lparr>name = JStr ''Chad'', capital = JNull, region = JNull, population = JInt 0,
          currency_code = JNull, exchange_rate = None, estimated_gdp = None, flag_url = JNull,
          last_refreshed_at = 7\<rparr>"
  let ?w1 = "\<lparr>countries_response = HttpFail (TimeoutException, ''timed out''),
      rates_response = HttpOk None, uniform = (\<lambda>i. 1500), utcnow = (\<lambda>i. 7),
      db_ok = True, ci_index = True\<rparr>"
  let ?w2 = "\<lparr>countries_response = HttpOk [JObj [(''name'', JStr ''Chad'')]],
      rates_response = HttpFail (RequestError, ''connection refused''),
      uniform = (\<lambda>i. 1500), utcnow = (\<lambda>i. 7), db_ok = True, ci_index = True\<rparr>"
  let ?w3 = "\<lparr>countries_response = HttpOk [JObj [(''name'', JStr ''Chad'')]],
      rates_response = HttpOk None,
      uniform = (\<lambda>i. 1500), utcnow = (\<lambda>i. 7), db_ok = False, ci_index = True\<rparr>"
  let ?s = "begin_session [?ng]"
  let ?s1 = "?s\<lparr>new_objects := [?p]\<rparr>"
  have f: "fetch_countries (HttpOk [JObj [(''name'', JStr ''Chad'')]]) = Inr [?chad]"
    by (simp add: fetch_countries_def process_country_data_def dict_get_def)
  have a: "refresh_countries_data ?w1 ?s
     = (Inl (Exception, ''Failed to refresh countries data: Countries API request timed out''), ?s)"
    using refresh_all_or_nothing [of ?w1 "(TimeoutException, ''timed out'')" ?s]
    by (simp add: countries_error_def begin_session_def)
  have b: "refresh_countries_data ?w2 ?s
     = (Inl (Exception,
        ''Failed to refresh countries data: Error fetching exchange rates: connection refused''), ?s)"
    using refresh_all_or_nothing [of ?w2 "(RequestError, ''connection refused'')" ?s "[?chad]"] f
    by (simp add: rates_error_def begin_session_def)
  have l: "refresh_loop Map.empty (\<lambda>i. 1500) (\<lambda>i. 7) 0 (?s, 0, 0) [?chad] = (Inr (), (?s1, 0, 1))"
    by (simp add: process_country_for_db_def dict_get_def upsert_def get_country_by_name_def
        begin_session_def sql_lower_def lower_char_def)
  have c: "commit False True ?s1 = (Inl (OperationalError, ''database unavailable''), ?s1)"
    by (simp add: commit_def)
  have "refresh_countries_data ?w3 ?s
     = (Inl (Exception, ''Failed to refresh countries data: database unavailable''), ?s)"
    using refresh_all_or_nothing
      [where w = ?w3 and s = ?s and cs = "[?chad]" and R = Map.empty and ?s1.0 = ?s1
         and u = 0 and a = 1 and x = "(OperationalError, ''database unavailable'')" and ?s2.0 = ?s1]
      f l c
    by (simp add: fetch_exchange_rates_def begin_session_def)
  with a b show ?thesis by simp
qed



text \<open>
  C10. A refresh that succeeds returns counters whose sum is the number of normalised
  records fetched. Each round of the loop counts its record once: as an update when some
  row of the table has a name that matches the record's name without regard to case, as
  an addition otherwise.
\<close>

theorem refresh_counts_every_record:
  "(fst (refresh_countries_data w s) = Inr (u, a)
      \<longrightarrow> (\<exists>cs. fetch_countries (countries_response w) = Inr cs \<and> u + a = length cs))
   \<and> snd (upsert (s, u, a) p)
       = (if (\<exists>row \<in> set (table s). name_matches (name row) (name p))
          then (u + 1, a) else (u, a + 1))"
proof (intro conjI impI)
  assume "fst (refresh_countries_data w s) = Inr (u, a)"
  from refresh_success_commits [OF this] obtain cs R s1 where
    cs: "fetch_countries (countries_response w) = Inr cs" and
    loop: "refresh_loop R (uniform w) (utcnow w) 0 (s, 0, 0) cs = (Inr (), (s1, u, a))"
    by blast
  from refresh_loop_counts [OF loop] cs
  show "\<exists>cs. fetch_countries (countries_response w) = Inr cs \<and> u + a = length cs"
    by simp
next
  show "snd (upsert (s, u, a) p)
       = (if (\<exists>row \<in> set (table s). name_matches (name row) (name p))
          then (u + 1, a) else (u, a + 1))"
    by (auto simp: upsert_def get_country_by_name_def find_None_iff find_Some_iff
             split: option.splits)
qed

theorem refresh_counts_every_record_witness:
  "fst (refresh_countries_data
     \<lparr>countries_response = HttpOk [JObj [(''name'', JStr ''NIGERIA'')], JObj [(''name'', JStr ''Chad'')]],
      rates_response = HttpOk None, uniform = (\<lambda>i. 1500), utcnow = (\<lambda>i. 7),
      db_ok = True, ci_index = True\<rparr>
     (begin_session
        [\<lparr>name = JStr ''Nigeria'', capital = JNull, region = JNull, population = JInt 5,
          currency_code = JNull, exchange_rate = None, estimated_gdp = None, flag_url = JNull,
          last_refreshed_at = 1, id_col = 1\<rparr>])) = Inr (1, 1)
   \<and> (\<exists>cs. fetch_countries
              (HttpOk [JObj [(''name'', JStr ''NIGERIA'')], JObj [(''name'', JStr ''Chad'')]]) = Inr cs
           \<and> (1::nat) + 1 = length cs)"
proof -
  let ?w = "\<lparr>countries_response = HttpOk [JObj [(''name'', JStr ''NIGERIA'')], JObj [(''name'', JStr ''Chad'')]],
      rates_response = HttpOk None, uniform = (\<lambda>i. 1500), utcnow = (\<lambda>i. 7),
      db_ok = True, ci_index = True\<rparr>"
  let ?s = "begin_session
        [\<lparr>name = JStr ''Nigeria'', capital = JNull, region = JNull, population = JInt 5,
          currency_code = JNull, exchange_rate = None, estimated_gdp = None, flag_url = JNull,
          last_refreshed_at = 1, id_col = 1\<rparr>]"
  have r: "fst (refresh_countries_data ?w ?s) = Inr (1, 1)"
    by (simp add: refresh_countries_data_def fetch_countries_def process_country_data_def
        dict_get_def fetch_exchange_rates_def process_country_for_db_def upsert_def
        get_country_by_name_def begin_session_def sql_lower_def lower_char_def loaded_def
        update_country_def commit_def flushed_def constraints_ok_def next_id_def new_country_def)
  from refresh_counts_every_record [of ?w ?s 1 1] r show ?thesis by simp
qed



section \<open>The identity map during the loop\<close>

lemma name_matches_iff:
  "name_matches a b \<longleftrightarrow> (\<exists>x y. a = JStr x \<and> b = JStr y \<and> sql_lower x = sql_lower y)"
  by (cases a; cases b) simp_all

lemma name_matches_sym: "name_matches a b \<Longrightarrow> name_matches b a"
  by (auto simp: name_matches_iff)

lemma name_matches_trans: "name_matches a b \<Longrightarrow> name_matches b c \<Longrightarrow> name_matches a c"
  by (auto simp: name_matches_iff)

lemma name_matches_key: "name_matches a b \<Longrightarrow> index_key True a = index_key True b"
  by (auto simp: name_matches_iff)

lemma key_name_matches:
  "is_str a \<Longrightarrow> is_str b \<Longrightarrow> index_key True a = index_key True b \<Longrightarrow> name_matches a b"
  by (cases a; cases b) simp_all

lemma process_name:
  "process_country_for_db c R m t = Inr p \<Longrightarrow> name p = dict_get c ''name'' JNull"
  by (auto simp: process_country_for_db_def Let_def dict_get_def
           split: if_splits json.splits option.splits sum.splits)

lemma tracked_begin: "tracked (begin_session rows) N"
  by (simp add: tracked_def begin_session_def)

lemma tracked_mono: "tracked s N \<Longrightarrow> N \<subseteq> M \<Longrightarrow> tracked s M"
  unfolding tracked_def by blast

lemma loaded_id: "tracked s N \<Longrightarrow> id_col (loaded s row) = id_col row"
  by (auto simp: tracked_def loaded_def split: option.splits)

lemma get_country_by_name_Some:
  "get_country_by_name s n = Some e \<Longrightarrow>
     \<exists>row \<in> set (table s). name_matches (name row) n \<and> e = loaded s row"
  by (auto simp: get_country_by_name_def find_Some_iff split: option.splits)

lemma get_country_by_name_None:
  "get_country_by_name s n = None \<longleftrightarrow> (\<forall>row \<in> set (table s). \<not> name_matches (name row) n)"
proof -
  have "get_country_by_name s n = None
          \<longleftrightarrow> find (\<lambda>row. name_matches (name row) n) (table s) = None"
    by (simp add: get_country_by_name_def split: option.splits)
  then show ?thesis by (auto simp: find_None_iff)
qed

lemma upsert_tracked:
  assumes "tracked s N" and "upsert (s, u, a) p = (s', u', a')"
  shows "tracked s' (insert (name p) N)"
proof (cases "get_country_by_name s (name p)")
  case None
  with assms(2) have "s' = s\<lparr>new_objects := new_objects s @ [p]\<rparr>"
    by (auto simp: upsert_def)
  with assms(1) show ?thesis unfolding tracked_def by fastforce
next
  case (Some e)
  from get_country_by_name_Some [OF Some] obtain row where
    row: "row \<in> set (table s)" "name_matches (name row) (name p)" "e = loaded s row"
    by blast
  have ide: "id_col e = id_col row" using row(3) loaded_id [OF assms(1)] by simp
  from Some assms(2) have s': "s' = s\<lparr>identity_map := (identity_map s)(id_col e \<mapsto> update_country e p)\<rparr>"
    by (auto simp: upsert_def)
  show ?thesis
    unfolding tracked_def
  proof (intro allI impI)
    fix k obj
    assume im: "identity_map s' k = Some obj"
    show "id_col obj = k \<and>
        (\<exists>row \<in> set (table s'). id_col row = k \<and> name_matches (name row) (name obj)
           \<and> (\<exists>n \<in> insert (name p) N. name_matches (name row) n))"
    proof (cases "k = id_col e")
      case True
      with im s' have obj: "obj = update_country e p" by simp
      then have "id_col obj = k" "name obj = name p"
        using True by (simp_all add: update_country_def)
      with row ide True s' show ?thesis by auto
    next
      case False
      with im s' have "identity_map s k = Some obj" by simp
      with assms(1) s' show ?thesis unfolding tracked_def by fastforce
    qed
  qed
qed

lemma refresh_loop_tracked:
  "tracked s N \<Longrightarrow> refresh_loop R U C i (s, u, a) cs = (r, (s', u', a')) \<Longrightarrow>
     tracked s' (N \<union> (\<lambda>c. dict_get c ''name'' JNull) ` set cs)"
proof (induction cs arbitrary: i s u a N)
  case Nil
  then show ?case by simp
next
  case (Cons c cs)
  show ?case
  proof (cases "process_country_for_db c R (U i) (C i)")
    case (Inl e)
    with Cons.prems have "s' = s" by simp
    with Cons.prems(1) show ?thesis by (auto intro: tracked_mono)
  next
    case (Inr p)
    obtain s1 u1 a1 where st: "upsert (s, u, a) p = (s1, u1, a1)"
      by (cases "upsert (s, u, a) p") auto
    from upsert_tracked [OF Cons.prems(1) st] have t1: "tracked s1 (insert (name p) N)" .
    from Inr st Cons.prems(2) have "refresh_loop R U C (Suc i) (s1, u1, a1) cs = (r, (s', u', a'))"
      by simp
    from Cons.IH [OF t1 this] process_name [OF Inr] show ?thesis
      by (auto intro: tracked_mono)
  qed
qed



section \<open>What a commit writes\<close>

lemma length_insert_all: "length (insert_all k ps) = length ps"
  by (induction ps arbitrary: k) simp_all

lemma name_insert_all: "map name (insert_all k ps) = map name ps"
  by (induction ps arbitrary: k) (simp_all add: new_country_def)

lemma length_flushed: "length (flushed s) = length (table s) + length (new_objects s)"
  by (simp add: flushed_def length_insert_all)

lemma flushed_nth: "i < length (table s) \<Longrightarrow> flushed s ! i = loaded s (table s ! i)"
  by (simp add: flushed_def nth_append)

lemma flushed_begin: "flushed (begin_session rows) = rows"
proof -
  have "loaded (begin_session rows) = (\<lambda>r. r)"
    by (rule ext) (simp add: loaded_def begin_session_def)
  then show ?thesis by (simp add: flushed_def begin_session_def)
qed

lemma commit_success:
  "commit ok ci s = (Inr x, s') \<Longrightarrow> s' = begin_session (flushed s) \<and> constraints_ok ci (flushed s)"
  by (auto simp: commit_def split: if_splits)

lemma loaded_unsighted:
  assumes "tracked s N" and "distinct (map id_col (table s))" and "row \<in> set (table s)"
      and "\<forall>n \<in> N. \<not> name_matches (name row) n"
  shows "loaded s row = row"
proof (cases "identity_map s (id_col row)")
  case None
  then show ?thesis by (simp add: loaded_def)
next
  case (Some obj)
  with assms(1) obtain row' where
    r: "row' \<in> set (table s)" "id_col row' = id_col row" "\<exists>n \<in> N. name_matches (name row') n"
    unfolding tracked_def by blast
  from assms(2) have "inj_on id_col (set (table s))" by (simp add: distinct_map)
  with r(1,2) assms(3) have "row' = row" by (auto dest: inj_onD)
  with r(3) assms(4) show ?thesis by blast
qed

lemma loaded_name:
  assumes "tracked s N" and "distinct (map id_col (table s))" and "row \<in> set (table s)"
  shows "loaded s row = row \<or> name_matches (name row) (name (loaded s row))"
proof (cases "identity_map s (id_col row)")
  case None
  then show ?thesis by (simp add: loaded_def)
next
  case (Some obj)
  with assms(1) obtain row' where
    r: "row' \<in> set (table s)" "id_col row' = id_col row" "name_matches (name row') (name obj)"
    unfolding tracked_def by blast
  from assms(2) have "inj_on id_col (set (table s))" by (simp add: distinct_map)
  with r(1,2) assms(3) have "row' = row" by (auto dest: inj_onD)
  with r(3) Some show ?thesis by (simp add: loaded_def)
qed

lemma flushed_ids:
  assumes "tracked s N"
  shows "take (length (table s)) (map id_col (flushed s)) = map id_col (table s)"
  using loaded_id [OF assms] by (simp add: flushed_def)

text \<open>The loop of a refresh that starts on a fresh session, and what it leaves behind.\<close>

lemma refresh_cases:
  obtains (failed) e where "fst (refresh_countries_data w (begin_session rows)) = Inl e"
      and "snd (refresh_countries_data w (begin_session rows)) = begin_session rows"
  | (committed) u a cs R s1 where
      "fst (refresh_countries_data w (begin_session rows)) = Inr (u, a)"
      and "fetch_countries (countries_response w) = Inr cs"
      and "refresh_loop R (uniform w) (utcnow w) 0 (begin_session rows, 0, 0) cs
             = (Inr (), (s1, u, a))"
      and "table s1 = rows"
      and "tracked s1 ((\<lambda>c. dict_get c ''name'' JNull) ` set cs)"
      and "constraints_ok (ci_index w) (flushed s1)"
      and "snd (refresh_countries_data w (begin_session rows)) = begin_session (flushed s1)"
proof (cases "fst (refresh_countries_data w (begin_session rows))")
  case (Inl e)
  from refresh_failure_rolls_back [OF this] Inl failed show ?thesis
    by (simp add: begin_session_def)
next
  case (Inr c)
  obtain u a where ua: "fst (refresh_countries_data w (begin_session rows)) = Inr (u, a)"
    using Inr by (cases c) auto
  from refresh_success_commits [OF ua] obtain cs R s1 where
    cs: "fetch_countries (countries_response w) = Inr cs" and
    loop: "refresh_loop R (uniform w) (utcnow w) 0 (begin_session rows, 0, 0) cs
             = (Inr (), (s1, u, a))" and
    c: "commit (db_ok w) (ci_index w) s1
          = (Inr (), snd (refresh_countries_data w (begin_session rows)))"
    by blast
  have t: "table s1 = rows"
    using refresh_loop_table [of R "uniform w" "utcnow w" 0 "(begin_session rows, 0, 0)" cs] loop
    by (simp add: begin_session_def)
  have tr: "tracked s1 ((\<lambda>c. dict_get c ''name'' JNull) ` set cs)"
    using refresh_loop_tracked [OF tracked_begin loop, of "{}"] by simp
  from commit_success [OF c] ua cs loop t tr committed show ?thesis by blast
qed



text \<open>
  C7. Whatever a refresh does, a row of the table whose name matches, without regard to
  case, the name of no record of the feed is afterwards the same row at the same place
  (primary keys being distinct). Refresh deletes nothing: the table never gets shorter
  and the old rows keep their keys and their order. A row leaves the table through
  \<open>delete_country_by_name\<close>, which removes the row found by the case-insensitive lookup.
\<close>

theorem refresh_leaves_unsighted_rows:
  assumes "distinct (map id_col rows)"
      and "i < length rows"
      and "\<forall>cs. fetch_countries (countries_response w) = Inr cs \<longrightarrow>
             (\<forall>c \<in> set cs. \<not> name_matches (name (rows ! i)) (dict_get c ''name'' JNull))"
  shows "table (snd (refresh_countries_data w (begin_session rows))) ! i = rows ! i
     \<and> length rows \<le> length (table (snd (refresh_countries_data w (begin_session rows))))
     \<and> take (length rows)
          (map id_col (table (snd (refresh_countries_data w (begin_session rows)))))
        = map id_col rows
     \<and> delete_country_by_name True (begin_session rows) n
        = (case find (\<lambda>row. name_matches (name row) n) rows of
             None \<Rightarrow> (Inr False, begin_session rows)
           | Some r \<Rightarrow> (Inr True, begin_session (filter (\<lambda>x. id_col x \<noteq> id_col r) rows)))"
proof -
  have d: "delete_country_by_name True (begin_session rows) n
        = (case find (\<lambda>row. name_matches (name row) n) rows of
             None \<Rightarrow> (Inr False, begin_session rows)
           | Some r \<Rightarrow> (Inr True, begin_session (filter (\<lambda>x. id_col x \<noteq> id_col r) rows)))"
    by (simp add: delete_country_by_name_def get_country_by_name_def flushed_begin
        split: option.splits)
       (simp add: begin_session_def loaded_def)
  have "table (snd (refresh_countries_data w (begin_session rows))) ! i = rows ! i
     \<and> length rows \<le> length (table (snd (refresh_countries_data w (begin_session rows))))
     \<and> take (length rows)
          (map id_col (table (snd (refresh_countries_data w (begin_session rows)))))
        = map id_col rows"
  proof (cases w rows rule: refresh_cases)
    case (failed e)
    then show ?thesis by (simp add: begin_session_def)
  next
    case (committed u a cs R s1)
    let ?N = "(\<lambda>c. dict_get c ''name'' JNull) ` set cs"
    have t: "table (snd (refresh_countries_data w (begin_session rows))) = flushed s1"
      using committed(7) by (simp add: begin_session_def)
    have mem: "rows ! i \<in> set (table s1)"
      using assms(2) committed(4) by simp
    have "\<forall>n \<in> ?N. \<not> name_matches (name (rows ! i)) n"
      using assms(3) committed(2) by auto
    with loaded_unsighted [OF committed(5) _ mem] assms(1) committed(4)
    have "loaded s1 (rows ! i) = rows ! i" by simp
    with flushed_nth [of i s1] assms(2) committed(4)
    have a: "flushed s1 ! i = rows ! i" by simp
    have b: "length rows \<le> length (flushed s1)"
      using committed(4) by (simp add: length_flushed)
    have c: "take (length rows) (map id_col (flushed s1)) = map id_col rows"
      using flushed_ids [OF committed(5)] committed(4) by simp
    from a b c t show ?thesis by simp
  qed
  with d show ?thesis by simp
qed

theorem refresh_leaves_unsighted_rows_witness:
  "table (snd (refresh_countries_data
     \<lparr>countries_response = HttpOk [JObj [(''name'', JStr ''NIGERIA'')]],
      rates_response = HttpOk None, uniform = (\<lambda>i. 1500), utcnow = (\<lambda>i. 7),
      db_ok = True, ci_index = True\<rparr>
     (begin_session
        [\<lparr>name = JStr ''Nigeria'', capital = JNull, region = JNull, population = JInt 5,
          currency_code = JNull, exchange_rate = None, estimated_gdp = None, flag_url = JNull,
          last_refreshed_at = 1, id_col = 1\<rparr>,
         \<lparr>name = JStr ''Chad'', capital = JNull, region = JNull, population = JInt 9,
          currency_code = JNull, exchange_rate = None, estimated_gdp = None, flag_url = JNull,
          last_refreshed_at = 1, id_col = 2\<rparr>]))) ! 1
   = \<lparr>name = JStr ''Chad'', capital = JNull, region = JNull, population = JInt 9,
      currency_code = JNull, exchange_rate = None, estimated_gdp = None, flag_url = JNull,
      last_refreshed_at = 1, id_col = 2\<rparr>"
proof -
  let ?w = "\<lparr>countries_response = HttpOk [JObj [(''name'', JStr ''NIGERIA'')]],
      rates_response = HttpOk None, uniform = (\<lambda>i. 1500), utcnow = (\<lambda>i. 7),
      db_ok = True, ci_index = True\<rparr>"
  let ?rows = "[\<lparr>name = JStr ''Nigeria'', capital = JNull, region = JNull, population = JInt 5,
          currency_code = JNull, exchange_rate = None, estimated_gdp = None, flag_url = JNull,
          last_refreshed_at = 1, id_col = 1\<rparr>,
         \<lparr>name = JStr ''Chad'', capital = JNull, region = JNull, population = JInt 9,
          currency_code = JNull, exchange_rate = None, estimated_gdp = None, flag_url = JNull,
          last_refreshed_at = 1, id_col = 2\<rparr>]"
  have a: "distinct (map id_col ?rows)" by simp
  have b: "(1::nat) < length ?rows" by simp
  have c: "\<forall>cs. fetch_countries (countries_response ?w) = Inr cs \<longrightarrow>
             (\<forall>c \<in> set cs. \<not> name_matches (name (?rows ! 1)) (dict_get c ''name'' JNull))"
    by (simp add: fetch_countries_def process_country_data_def dict_get_def
        sql_lower_def lower_char_def)
  from refresh_leaves_unsighted_rows [OF a b c] show ?thesis by simp
qed



text \<open>
  C9, as the code has it. A sighting of a name that the lookup finds overwrites every
  column of the found entry except the primary key with the values of the processed
  record: \<open>name\<close>, \<open>capital\<close>, \<open>region\<close>, \<open>population\<close>, \<open>currency_code\<close>,
  \<open>exchange_rate\<close>, \<open>estimated_gdp\<close>, \<open>flag_url\<close> and \<open>last_refreshed_at\<close>; \<open>updated\<close> is
  incremented. The stored name becomes the feed's spelling, which matches the stored name
  without regard to case. Over a whole refresh every old row keeps its primary key, and
  its name either stays or is replaced by one that matches it without regard to case.
\<close>

theorem update_overwrites_all_but_id:
  "(get_country_by_name s (name p) = Some e \<longrightarrow>
      update_country e p
        = \<lparr>name = name p, capital = capital p, region = region p, population = population p,
           currency_code = currency_code p, exchange_rate = exchange_rate p,
           estimated_gdp = estimated_gdp p, flag_url = flag_url p,
           last_refreshed_at = last_refreshed_at p, id_col = id_col e\<rparr>
      \<and> upsert (s, u, a) p
        = (s\<lparr>identity_map := (identity_map s)(id_col e \<mapsto> update_country e p)\<rparr>, u + 1, a))
   \<and> (get_country_by_name (begin_session rows) (name p) = Some e \<longrightarrow>
      e \<in> set rows \<and> name_matches (name e) (name p))
   \<and> (distinct (map id_col rows) \<and> i < length rows \<longrightarrow>
      id_col (table (snd (refresh_countries_data w (begin_session rows))) ! i) = id_col (rows ! i)
      \<and> (table (snd (refresh_countries_data w (begin_session rows))) ! i = rows ! i
         \<or> name_matches (name (rows ! i))
              (name (table (snd (refresh_countries_data w (begin_session rows))) ! i))))"
proof (intro conjI impI)
  show "update_country e p
        = \<lparr>name = name p, capital = capital p, region = region p, population = population p,
           currency_code = currency_code p, exchange_rate = exchange_rate p,
           estimated_gdp = estimated_gdp p, flag_url = flag_url p,
           last_refreshed_at = last_refreshed_at p, id_col = id_col e\<rparr>"
    by (cases e) (simp add: update_country_def)
next
  assume "get_country_by_name s (name p) = Some e"
  then show "upsert (s, u, a) p
        = (s\<lparr>identity_map := (identity_map s)(id_col e \<mapsto> update_country e p)\<rparr>, u + 1, a)"
    by (simp add: upsert_def)
next
  assume h: "get_country_by_name (begin_session rows) (name p) = Some e"
  from get_country_by_name_Some [OF h] obtain row where
    "row \<in> set rows" "name_matches (name row) (name p)" "e = loaded (begin_session rows) row"
    by (auto simp: begin_session_def)
  moreover have "loaded (begin_session rows) row = row"
    by (simp add: loaded_def begin_session_def)
  ultimately show "e \<in> set rows" and "name_matches (name e) (name p)" by simp_all
next
  assume h: "distinct (map id_col rows) \<and> i < length rows"
  have "id_col (table (snd (refresh_countries_data w (begin_session rows))) ! i) = id_col (rows ! i)
      \<and> (table (snd (refresh_countries_data w (begin_session rows))) ! i = rows ! i
         \<or> name_matches (name (rows ! i))
              (name (table (snd (refresh_countries_data w (begin_session rows))) ! i)))"
  proof (cases w rows rule: refresh_cases)
    case (failed e)
    then show ?thesis by (simp add: begin_session_def)
  next
    case (committed u a cs R s1)
    have t: "table (snd (refresh_countries_data w (begin_session rows))) ! i
               = loaded s1 (rows ! i)"
      using committed(7,4) h flushed_nth [of i s1] by (simp add: begin_session_def)
    have mem: "rows ! i \<in> set (table s1)" using h committed(4) by simp
    from loaded_name [OF committed(5) _ mem] h committed(4)
    have "loaded s1 (rows ! i) = rows ! i
            \<or> name_matches (name (rows ! i)) (name (loaded s1 (rows ! i)))"
      by simp
    with t loaded_id [OF committed(5), of "rows ! i"] show ?thesis by auto
  qed
  then show "id_col (table (snd (refresh_countries_data w (begin_session rows))) ! i) = id_col (rows ! i)"
    and "table (snd (refresh_countries_data w (begin_session rows))) ! i = rows ! i
         \<or> name_matches (name (rows ! i))
              (name (table (snd (refresh_countries_data w (begin_session rows))) ! i))"
    by simp_all
qed

theorem update_overwrites_all_but_id_witness:
  "update_country
     \<lparr>name = JStr ''Nigeria'', capital = JStr ''Abuja'', region = JNull, population = JInt 5,
      currency_code = JNull, exchange_rate = None, estimated_gdp = None, flag_url = JNull,
      last_refreshed_at = 1, id_col = 1\<rparr>
     \<lparr>name = JStr ''NIGERIA'', capital = JNull, region = JNull, population = JInt 0,
      currency_code = JNull, exchange_rate = None, estimated_gdp = None, flag_url = JNull,
      last_refreshed_at = 7\<rparr>
   = \<lparr>name = JStr ''NIGERIA'', capital = JNull, region = JNull, population = JInt 0,
      currency_code = JNull, exchange_rate = None, estimated_gdp = None, flag_url = JNull,
      last_refreshed_at = 7, id_col = 1\<rparr>
   \<and> name_matches (JStr ''Nigeria'') (JStr ''NIGERIA'')
   \<and> id_col (table (snd (refresh_countries_data
         \<lparr>countries_response = HttpOk [JObj [(''name'', JStr ''NIGERIA'')]],
          rates_response = HttpOk None, uniform = (\<lambda>i. 1500), utcnow = (\<lambda>i. 7),
          db_ok = True, ci_index = True\<rparr>
         (begin_session
            [\<lparr>name = JStr ''Nigeria'', capital = JStr ''Abuja'', region = JNull,
              population = JInt 5, currency_code = JNull, exchange_rate = None,
              estimated_gdp = None, flag_url = JNull, last_refreshed_at = 1,
              id_col = 1\<rparr>]))) ! 0) = 1"
proof -
  let ?e = "\<lparr>name = JStr ''Nigeria'', capital = JStr ''Abuja'', region = JNull, population = JInt 5,
      currency_code = JNull, exchange_rate = None, estimated_gdp = None, flag_url = JNull,
      last_refreshed_at = 1, id_col = 1\<rparr>"
  let ?p = "\<lparr>name = JStr ''NIGERIA'', capital = JNull, region = JNull, population = JInt 0,
      currency_code = JNull, exchange_rate = None, estimated_gdp = None, flag_url = JNull,
      last_refreshed_at = 7\<rparr>"
  let ?w = "\<lparr>countries_response = HttpOk [JObj [(''name'', JStr ''NIGERIA'')]],
          rates_response = HttpOk None, uniform = (\<lambda>i. 1500), utcnow = (\<lambda>i. 7),
          db_ok = True, ci_index = True\<rparr>"
  have g: "get_country_by_name (begin_session [?e]) (name ?p) = Some ?e"
    by (simp add: get_country_by_name_def begin_session_def loaded_def sql_lower_def
        lower_char_def)
  have d: "distinct (map id_col [?e]) \<and> (0::nat) < length [?e]" by simp
  from update_overwrites_all_but_id
         [where s = "begin_session [?e]" and p = ?p and e = ?e and rows = "[?e]" and i = 0
            and w = ?w]
       g d
  show ?thesis by simp
qed

text \<open>
  C9 as stated fails for the name: with \<open>Nigeria\<close> stored under key 1 and \<open>NIGERIA\<close> in the
  feed, the refresh counts one update and the stored name is \<open>NIGERIA\<close> afterwards.
\<close>

theorem stored_name_overwritten:
  "refresh_countries_data
     \<lparr>countries_response = HttpOk [JObj [(''name'', JStr ''NIGERIA'')]],
      rates_response = HttpOk None, uniform = (\<lambda>i. 1500), utcnow = (\<lambda>i. 7),
      db_ok = True, ci_index = True\<rparr>
     (begin_session
        [\<lparr>name = JStr ''Nigeria'', capital = JStr ''Abuja'', region = JNull, population = JInt 5,
          currency_code = JNull, exchange_rate = None, estimated_gdp = None, flag_url = JNull,
          last_refreshed_at = 1, id_col = 1\<rparr>])
   = (Inr (1, 0),
      begin_session
        [\<lparr>name = JStr ''NIGERIA'', capital = JNull, region = JNull, population = JInt 0,
          currency_code = JNull, exchange_rate = None, estimated_gdp = None, flag_url = JNull,
          last_refreshed_at = 7, id_col = 1\<rparr>])"
  by (simp add: refresh_countries_data_def fetch_countries_def process_country_data_def
        dict_get_def fetch_exchange_rates_def process_country_for_db_def upsert_def
        get_country_by_name_def begin_session_def sql_lower_def lower_char_def loaded_def
        update_country_def commit_def flushed_def constraints_ok_def next_id_def)



section \<open>New objects and repeated refreshes\<close>

lemma upsert_new_objects:
  "upsert (s, u, a) p = (s', u', a') \<Longrightarrow>
     (get_country_by_name s (name p) \<noteq> None \<and> new_objects s' = new_objects s \<and> a' = a
        \<and> u' = Suc u)
     \<or> (get_country_by_name s (name p) = None \<and> new_objects s' = new_objects s @ [p]
        \<and> a' = Suc a \<and> u' = u)"
  by (auto simp: upsert_def split: option.splits)

lemma refresh_loop_new_objects:
  "refresh_loop R U C i (s, u, a) cs = (Inr x, (s', u', a')) \<Longrightarrow>
     set (new_objects s) \<subseteq> set (new_objects s')
     \<and> (\<forall>c \<in> set cs.
           (\<exists>row \<in> set (table s). name_matches (name row) (dict_get c ''name'' JNull))
           \<or> (\<exists>p \<in> set (new_objects s'). name p = dict_get c ''name'' JNull))
     \<and> (\<forall>p \<in> set (new_objects s'). p \<in> set (new_objects s)
           \<or> (\<forall>row \<in> set (table s). \<not> name_matches (name row) (name p)))"
proof (induction cs arbitrary: i s u a)
  case Nil
  then show ?case by simp
next
  case (Cons c cs)
  then obtain p where p: "process_country_for_db c R (U i) (C i) = Inr p"
    by (auto split: sum.splits)
  obtain s1 u1 a1 where st: "upsert (s, u, a) p = (s1, u1, a1)"
    by (cases "upsert (s, u, a) p") auto
  with p Cons.prems have loop: "refresh_loop R U C (Suc i) (s1, u1, a1) cs = (Inr x, (s', u', a'))"
    by simp
  have t: "table s1 = table s" using upsert_table [of "(s, u, a)" p] st by simp
  note ih = Cons.IH [OF loop, unfolded t]
  note n = process_name [OF p]
  from upsert_new_objects [OF st] show ?case
  proof
    assume f: "get_country_by_name s (name p) \<noteq> None \<and> new_objects s1 = new_objects s \<and> a1 = a
        \<and> u1 = Suc u"
    then have "\<exists>row \<in> set (table s). name_matches (name row) (name p)"
      by (simp add: get_country_by_name_None)
    with ih f n show ?thesis by auto
  next
    assume f: "get_country_by_name s (name p) = None \<and> new_objects s1 = new_objects s @ [p]
        \<and> a1 = Suc a \<and> u1 = u"
    then have nf: "\<forall>row \<in> set (table s). \<not> name_matches (name row) (name p)"
      by (simp add: get_country_by_name_None)
    from ih f have "p \<in> set (new_objects s')" by auto
    with ih f n nf show ?thesis by auto
  qed
qed

lemma refresh_loop_all_found:
  "\<forall>c \<in> set cs. \<exists>row \<in> set (table s). name_matches (name row) (dict_get c ''name'' JNull) \<Longrightarrow>
   refresh_loop R U C i (s, u, a) cs = (Inr x, (s', u', a')) \<Longrightarrow>
     a' = a \<and> u' = u + length cs"
proof (induction cs arbitrary: i s u a)
  case Nil
  then show ?case by simp
next
  case (Cons c cs)
  then obtain p where p: "process_country_for_db c R (U i) (C i) = Inr p"
    by (auto split: sum.splits)
  obtain s1 u1 a1 where st: "upsert (s, u, a) p = (s1, u1, a1)"
    by (cases "upsert (s, u, a) p") auto
  with p Cons.prems have loop: "refresh_loop R U C (Suc i) (s1, u1, a1) cs = (Inr x, (s', u', a'))"
    by simp
  have t: "table s1 = table s" using upsert_table [of "(s, u, a)" p] st by simp
  from Cons.prems(1) process_name [OF p]
  have "get_country_by_name s (name p) \<noteq> None"
    by (simp add: get_country_by_name_None)
  with upsert_new_objects [OF st] have "a1 = a" "u1 = Suc u" by auto
  moreover from Cons.prems(1) t
  have "\<forall>c \<in> set cs. \<exists>row \<in> set (table s1). name_matches (name row) (dict_get c ''name'' JNull)"
    by simp
  from Cons.IH [OF this loop] have "a' = a1" "u' = u1 + length cs" by simp_all
  ultimately show ?case by simp
qed

lemma refresh_loop_distinct_new:
  "distinct (map (\<lambda>p. index_key True (name p)) (new_objects s)
            @ map (\<lambda>c. index_key True (dict_get c ''name'' JNull)) cs) \<Longrightarrow>
   refresh_loop R U C i (s, u, a) cs = (Inr x, (s', u', a')) \<Longrightarrow>
     distinct (map (\<lambda>p. index_key True (name p)) (new_objects s'))"
proof (induction cs arbitrary: i s u a)
  case Nil
  then show ?case by simp
next
  case (Cons c cs)
  then obtain p where p: "process_country_for_db c R (U i) (C i) = Inr p"
    by (auto split: sum.splits)
  obtain s1 u1 a1 where st: "upsert (s, u, a) p = (s1, u1, a1)"
    by (cases "upsert (s, u, a) p") auto
  with p Cons.prems have loop: "refresh_loop R U C (Suc i) (s1, u1, a1) cs = (Inr x, (s', u', a'))"
    by simp
  let ?A = "map (\<lambda>p. index_key True (name p)) (new_objects s)"
  let ?B = "map (\<lambda>c. index_key True (dict_get c ''name'' JNull)) cs"
  let ?k = "index_key True (name p)"
  from Cons.prems(1) process_name [OF p] have d: "distinct (?A @ ?k # ?B)" by simp
  then have d1: "distinct (?A @ ?B)" by auto
  from d have d2: "distinct ((?A @ [?k]) @ ?B)" by auto
  have "distinct (map (\<lambda>p. index_key True (name p)) (new_objects s1) @ ?B)"
    using upsert_new_objects [OF st]
  proof
    assume "get_country_by_name s (name p) \<noteq> None \<and> new_objects s1 = new_objects s \<and> a1 = a
        \<and> u1 = Suc u"
    with d1 show ?thesis by simp
  next
    assume "get_country_by_name s (name p) = None \<and> new_objects s1 = new_objects s @ [p]
        \<and> a1 = Suc a \<and> u1 = u"
    with d2 show ?thesis by simp
  qed
  from Cons.IH [OF this loop] show ?case .
qed



lemma id_less_next_id: "r \<in> set rows \<Longrightarrow> id_col r < next_id rows"
  unfolding next_id_def by (induction rows) auto

lemma ids_insert_all: "map id_col (insert_all k ps) = [k..<k + length ps]"
  by (induction ps arbitrary: k) (simp_all add: new_country_def upt_rec)

lemma constraints_ok_str: "constraints_ok ci rows \<Longrightarrow> r \<in> set rows \<Longrightarrow> is_str (name r)"
  by (auto simp: constraints_ok_def list_all_iff)

lemma flushed_set:
  "set (flushed s) = loaded s ` set (table s) \<union> set (insert_all (next_id (table s)) (new_objects s))"
  by (simp add: flushed_def)

lemma insert_all_names: "name ` set (insert_all k ps) = name ` set ps"
  using name_insert_all [of k ps] by (metis set_map)

lemma flushed_distinct_ids:
  assumes "tracked s N" and "distinct (map id_col (table s))"
  shows "distinct (map id_col (flushed s))"
proof -
  have a: "map id_col (map (loaded s) (table s)) = map id_col (table s)"
    using loaded_id [OF assms(1)] by simp
  have "\<forall>k \<in> set (map id_col (table s)). k < next_id (table s)"
    by (auto simp: id_less_next_id)
  then have "set (map id_col (table s))
               \<inter> set [next_id (table s)..<next_id (table s) + length (new_objects s)] = {}"
    by fastforce
  with a assms(2) show ?thesis
    by (simp add: flushed_def ids_insert_all del: map_map)
qed

lemma loaded_key:
  assumes "tracked s N" and "distinct (map id_col (table s))" and "row \<in> set (table s)"
  shows "index_key True (name (loaded s row)) = index_key True (name row)"
  using loaded_name [OF assms] by (auto dest: name_matches_key)

lemma loaded_str:
  assumes "tracked s N" and "distinct (map id_col (table s))" and "row \<in> set (table s)"
      and "is_str (name (loaded s row))"
  shows "is_str (name row)"
  using loaded_name [OF assms(1-3)] assms(4) by (auto simp: name_matches_iff)

lemma flushed_covers:
  assumes tr: "tracked s N" and ids: "distinct (map id_col (table s))"
      and ok: "constraints_ok ci (flushed s)"
      and cov: "(\<exists>row \<in> set (table s). name_matches (name row) n)
                \<or> (\<exists>p \<in> set (new_objects s). name p = n)"
  shows "\<exists>row \<in> set (flushed s). name_matches (name row) n"
  using cov
proof
  assume "\<exists>row \<in> set (table s). name_matches (name row) n"
  then obtain row where r: "row \<in> set (table s)" "name_matches (name row) n" by blast
  from loaded_name [OF tr ids r(1)] r(2)
  have "name_matches (name (loaded s row)) n"
    by (auto intro: name_matches_trans name_matches_sym)
  moreover have "loaded s row \<in> set (flushed s)" using r(1) by (simp add: flushed_set)
  ultimately show ?thesis by blast
next
  assume "\<exists>p \<in> set (new_objects s). name p = n"
  then have "n \<in> name ` set (insert_all (next_id (table s)) (new_objects s))"
    by (auto simp: insert_all_names)
  then obtain r where r: "r \<in> set (flushed s)" "name r = n"
    by (auto simp: flushed_set)
  with constraints_ok_str [OF ok r(1)] have "name_matches (name r) n"
    by (auto simp: name_matches_iff elim: is_str.elims)
  with r(1) show ?thesis by blast
qed

lemma flushed_distinct_keys:
  assumes tr: "tracked s N" and ids: "distinct (map id_col (table s))"
      and ok: "constraints_ok ci (flushed s)"
      and keys: "distinct (map (\<lambda>r. index_key True (name r)) (table s))"
      and new: "distinct (map (\<lambda>p. index_key True (name p)) (new_objects s))"
      and unmatched: "\<forall>p \<in> set (new_objects s). \<forall>row \<in> set (table s).
                        \<not> name_matches (name row) (name p)"
  shows "distinct (map (\<lambda>r. index_key True (name r)) (flushed s))"
proof -
  let ?ins = "insert_all (next_id (table s)) (new_objects s)"
  have a: "map (\<lambda>r. index_key True (name r)) (map (loaded s) (table s))
             = map (\<lambda>r. index_key True (name r)) (table s)"
    using loaded_key [OF tr ids] by simp
  have b: "map (\<lambda>r. index_key True (name r)) ?ins
             = map (\<lambda>p. index_key True (name p)) (new_objects s)"
  proof -
    have "map (index_key True) (map name ?ins) = map (index_key True) (map name (new_objects s))"
      by (simp only: name_insert_all)
    then show ?thesis by (simp add: comp_def)
  qed
  have c: "index_key True (name row) \<noteq> index_key True (name p)"
    if row: "row \<in> set (table s)" and p: "p \<in> set (new_objects s)" for row p
  proof
    assume eq: "index_key True (name row) = index_key True (name p)"
    have "loaded s row \<in> set (flushed s)" using row by (simp add: flushed_set)
    from constraints_ok_str [OF ok this] have "is_str (name (loaded s row))" .
    from loaded_str [OF tr ids row this] have s1: "is_str (name row)" .
    from p have "name p \<in> name ` set ?ins" by (auto simp: insert_all_names)
    then obtain r where r: "r \<in> set ?ins" "name p = name r" by blast
    then have "r \<in> set (flushed s)" by (simp add: flushed_set)
    from constraints_ok_str [OF ok this] r(2) have s2: "is_str (name p)" by simp
    from key_name_matches [OF s1 s2 eq] unmatched row p show False by blast
  qed
  have "set (map (\<lambda>r. index_key True (name r)) (table s))
          \<inter> set (map (\<lambda>p. index_key True (name p)) (new_objects s)) = {}"
    using c by auto
  with a b keys new show ?thesis
    by (simp add: flushed_def del: map_map)
qed



text \<open>
  C2, as the code has it. When a refresh of a table with distinct primary keys succeeds
  and a second refresh with the same country feed succeeds, the second one adds nothing
  and counts one update for every record of the feed. When moreover no two rows of the
  table and no two records of the feed have names that are equal after case folding, the
  table after the refresh, whatever its outcome, again has distinct primary keys and no
  two rows whose names are equal after case folding: a feed name that differs from a
  stored name only in case updates that one entry.
\<close>

theorem second_refresh_adds_nothing:
  "(distinct (map id_col rows)
      \<and> fst (refresh_countries_data w1 (begin_session rows)) = Inr (u1, a1)
      \<and> countries_response w2 = countries_response w1
      \<and> fst (refresh_countries_data w2 (snd (refresh_countries_data w1 (begin_session rows))))
          = Inr (u2, a2)
     \<longrightarrow> a2 = 0 \<and> (\<exists>cs. fetch_countries (countries_response w1) = Inr cs \<and> u2 = length cs))
   \<and> (distinct (map id_col rows)
      \<and> distinct (map (\<lambda>r. index_key True (name r)) rows)
      \<and> (\<forall>cs. fetch_countries (countries_response w1) = Inr cs \<longrightarrow>
            distinct (map (\<lambda>c. index_key True (dict_get c ''name'' JNull)) cs))
     \<longrightarrow> distinct (map id_col (table (snd (refresh_countries_data w1 (begin_session rows)))))
       \<and> distinct (map (\<lambda>r. index_key True (name r))
                    (table (snd (refresh_countries_data w1 (begin_session rows))))))"
proof (intro conjI impI)
  assume h: "distinct (map id_col rows)
      \<and> fst (refresh_countries_data w1 (begin_session rows)) = Inr (u1, a1)
      \<and> countries_response w2 = countries_response w1
      \<and> fst (refresh_countries_data w2 (snd (refresh_countries_data w1 (begin_session rows))))
          = Inr (u2, a2)"
  have "a2 = 0 \<and> (\<exists>cs. fetch_countries (countries_response w1) = Inr cs \<and> u2 = length cs)"
  proof (cases w1 rows rule: refresh_cases)
    case (failed e)
    with h show ?thesis by simp
  next
    case (committed u a cs R s1)
    have ids: "distinct (map id_col (table s1))" using h committed(4) by simp
    from refresh_loop_new_objects [OF committed(3)]
    have cov: "\<forall>c \<in> set cs.
           (\<exists>row \<in> set (table s1). name_matches (name row) (dict_get c ''name'' JNull))
           \<or> (\<exists>p \<in> set (new_objects s1). name p = dict_get c ''name'' JNull)"
      using committed(4) by (simp add: begin_session_def)
    have found: "\<forall>c \<in> set cs. \<exists>row \<in> set (table (begin_session (flushed s1))).
                    name_matches (name row) (dict_get c ''name'' JNull)"
    proof
      fix c assume "c \<in> set cs"
      with cov flushed_covers [OF committed(5) ids committed(6), of "dict_get c ''name'' JNull"]
      show "\<exists>row \<in> set (table (begin_session (flushed s1))).
                    name_matches (name row) (dict_get c ''name'' JNull)"
        by (simp add: begin_session_def)
    qed
    from h committed(7)
    have "fst (refresh_countries_data w2 (begin_session (flushed s1))) = Inr (u2, a2)" by simp
    from refresh_success_commits [OF this] obtain cs2 R2 s2 where
      cs2: "fetch_countries (countries_response w2) = Inr cs2" and
      loop2: "refresh_loop R2 (uniform w2) (utcnow w2) 0 (begin_session (flushed s1), 0, 0) cs2
                = (Inr (), (s2, u2, a2))"
      by blast
    from cs2 h committed(2) have "cs2 = cs" by simp
    with loop2
    have "refresh_loop R2 (uniform w2) (utcnow w2) 0 (begin_session (flushed s1), 0, 0) cs
                = (Inr (), (s2, u2, a2))"
      by simp
    from refresh_loop_all_found [OF found this] have "a2 = 0" "u2 = length cs" by simp_all
    with committed(2) show ?thesis by simp
  qed
  then show "a2 = 0" and "\<exists>cs. fetch_countries (countries_response w1) = Inr cs \<and> u2 = length cs"
    by simp_all
next
  assume h: "distinct (map id_col rows)
      \<and> distinct (map (\<lambda>r. index_key True (name r)) rows)
      \<and> (\<forall>cs. fetch_countries (countries_response w1) = Inr cs \<longrightarrow>
            distinct (map (\<lambda>c. index_key True (dict_get c ''name'' JNull)) cs))"
  have "distinct (map id_col (table (snd (refresh_countries_data w1 (begin_session rows)))))
       \<and> distinct (map (\<lambda>r. index_key True (name r))
                    (table (snd (refresh_countries_data w1 (begin_session rows)))))"
  proof (cases w1 rows rule: refresh_cases)
    case (failed e)
    with h show ?thesis by (simp add: begin_session_def)
  next
    case (committed u a cs R s1)
    have ids: "distinct (map id_col (table s1))" using h committed(4) by simp
    have keys: "distinct (map (\<lambda>r. index_key True (name r)) (table s1))"
      using h committed(4) by simp
    have "distinct (map (\<lambda>p. index_key True (name p)) (new_objects (begin_session rows))
            @ map (\<lambda>c. index_key True (dict_get c ''name'' JNull)) cs)"
      using h committed(2) by (simp add: begin_session_def)
    from refresh_loop_distinct_new [OF this committed(3)]
    have new: "distinct (map (\<lambda>p. index_key True (name p)) (new_objects s1))" .
    from refresh_loop_new_objects [OF committed(3)]
    have unmatched: "\<forall>p \<in> set (new_objects s1). \<forall>row \<in> set (table s1).
                        \<not> name_matches (name row) (name p)"
      using committed(4) by (simp add: begin_session_def)
    from flushed_distinct_ids [OF committed(5) ids]
      flushed_distinct_keys [OF committed(5) ids committed(6) keys new unmatched] committed(7)
    show ?thesis by (simp add: begin_session_def)
  qed
  then show "distinct (map id_col (table (snd (refresh_countries_data w1 (begin_session rows)))))"
    and "distinct (map (\<lambda>r. index_key True (name r))
                    (table (snd (refresh_countries_data w1 (begin_session rows)))))"
    by simp_all
qed

theorem second_refresh_adds_nothing_witness:
  "fst (refresh_countries_data
          \<lparr>countries_response = HttpOk [JObj [(''name'', JStr ''NIGERIA'')], JObj [(''name'', JStr ''Chad'')]],
           rates_response = HttpOk None, uniform = (\<lambda>i. 1500), utcnow = (\<lambda>i. 7),
           db_ok = True, ci_index = True\<rparr>
          (begin_session
             [\<lparr>name = JStr ''NIGERIA'', capital = JNull, region = JNull, population = JInt 0,
               currency_code = JNull, exchange_rate = None, estimated_gdp = None,
               flag_url = JNull, last_refreshed_at = 7, id_col = 1\<rparr>,
              \<lparr>name = JStr ''Chad'', capital = JNull, region = JNull, population = JInt 0,
               currency_code = JNull, exchange_rate = None, estimated_gdp = None,
               flag_url = JNull, last_refreshed_at = 7, id_col = 2\<rparr>]))
     = Inr (2, 0)
   \<and> (0::nat) = 0
   \<and> (\<exists>cs. fetch_countries
              (HttpOk [JObj [(''name'', JStr ''NIGERIA'')], JObj [(''name'', JStr ''Chad'')]]) = Inr cs
           \<and> (2::nat) = length cs)
   \<and> distinct (map (\<lambda>r. index_key True (name r))
        (table (snd (refresh_countries_data
          \<lparr>countries_response = HttpOk [JObj [(''name'', JStr ''NIGERIA'')], JObj [(''name'', JStr ''Chad'')]],
           rates_response = HttpOk None, uniform = (\<lambda>i. 1500), utcnow = (\<lambda>i. 7),
           db_ok = True, ci_index = True\<rparr>
          (begin_session
             [\<lparr>name = JStr ''Nigeria'', capital = JNull, region = JNull, population = JInt 5,
               currency_code = JNull, exchange_rate = None, estimated_gdp = None,
               flag_url = JNull, last_refreshed_at = 1, id_col = 1\<rparr>])))))"
proof -
  let ?w = "\<lparr>countries_response = HttpOk [JObj [(''name'', JStr ''NIGERIA'')], JObj [(''name'', JStr ''Chad'')]],
           rates_response = HttpOk None, uniform = (\<lambda>i. 1500), utcnow = (\<lambda>i. 7),
           db_ok = True, ci_index = True\<rparr>"
  let ?rows = "[\<lparr>name = JStr ''Nigeria'', capital = JNull, region = JNull, population = JInt 5,
               currency_code = JNull, exchange_rate = None, estimated_gdp = None,
               flag_url = JNull, last_refreshed_at = 1, id_col = 1\<rparr>]"
  let ?rows1 = "[\<lparr>name = JStr ''NIGERIA'', capital = JNull, region = JNull, population = JInt 0,
               currency_code = JNull, exchange_rate = None, estimated_gdp = None,
               flag_url = JNull, last_refreshed_at = 7, id_col = 1\<rparr>,
              \<lparr>name = JStr ''Chad'', capital = JNull, region = JNull, population = JInt 0,
               currency_code = JNull, exchange_rate = None, estimated_gdp = None,
               flag_url = JNull, last_refreshed_at = 7, id_col = 2\<rparr>]"
  have r1: "refresh_countries_data ?w (begin_session ?rows) = (Inr (1, 1), begin_session ?rows1)"
    by (simp add: refresh_countries_data_def fetch_countries_def process_country_data_def
        dict_get_def fetch_exchange_rates_def process_country_for_db_def upsert_def
        get_country_by_name_def begin_session_def sql_lower_def lower_char_def loaded_def
        update_country_def commit_def flushed_def constraints_ok_def next_id_def new_country_def)
  have r2: "refresh_countries_data ?w (begin_session ?rows1) = (Inr (2, 0), begin_session ?rows1)"
    by (simp add: refresh_countries_data_def fetch_countries_def process_country_data_def
        dict_get_def fetch_exchange_rates_def process_country_for_db_def upsert_def
        get_country_by_name_def begin_session_def sql_lower_def lower_char_def loaded_def
        update_country_def commit_def flushed_def constraints_ok_def next_id_def new_country_def)
  have a: "distinct (map id_col ?rows)
      \<and> fst (refresh_countries_data ?w (begin_session ?rows)) = Inr (1, 1)
      \<and> countries_response ?w = countries_response ?w
      \<and> fst (refresh_countries_data ?w (snd (refresh_countries_data ?w (begin_session ?rows))))
          = Inr (2, 0)"
    using r1 r2 by simp
  have b: "distinct (map id_col ?rows)
      \<and> distinct (map (\<lambda>r. index_key True (name r)) ?rows)
      \<and> (\<forall>cs. fetch_countries (countries_response ?w) = Inr cs \<longrightarrow>
            distinct (map (\<lambda>c. index_key True (dict_get c ''name'' JNull)) cs))"
    by (simp add: fetch_countries_def process_country_data_def dict_get_def sql_lower_def
        lower_char_def)
  from second_refresh_adds_nothing
         [where rows = ?rows and ?w1.0 = ?w and ?w2.0 = ?w and ?u1.0 = 1 and ?a1.0 = 1
            and ?u2.0 = 2 and ?a2.0 = 0]
       a b
  have "(0::nat) = 0
   \<and> (\<exists>cs. fetch_countries (countries_response ?w) = Inr cs \<and> (2::nat) = length cs)
   \<and> distinct (map (\<lambda>r. index_key True (name r))
        (table (snd (refresh_countries_data ?w (begin_session ?rows)))))"
    by blast
  with r2 show ?thesis by simp
qed

text \<open>
  C2 as stated fails on a feed that holds both \<open>Nigeria\<close> and \<open>NIGERIA\<close>, refreshed into an
  empty table: neither lookup sees the other record's pending insert, so both are added.
  Under a unique index that ignores case the commit fails and the refresh raises. Under
  one that respects case the refresh adds two rows whose names are equal after case
  folding, and the second refresh with the same feed raises.
\<close>

theorem case_variants_in_one_feed:
  "refresh_countries_data
     \<lparr>countries_response = HttpOk [JObj [(''name'', JStr ''Nigeria'')], JObj [(''name'', JStr ''NIGERIA'')]],
      rates_response = HttpOk None, uniform = (\<lambda>i. 1500), utcnow = (\<lambda>i. 7),
      db_ok = True, ci_index = True\<rparr>
     (begin_session [])
   = (Inl (Exception, ''Failed to refresh countries data: constraint violated''), begin_session [])
   \<and> refresh_countries_data
     \<lparr>countries_response = HttpOk [JObj [(''name'', JStr ''Nigeria'')], JObj [(''name'', JStr ''NIGERIA'')]],
      rates_response = HttpOk None, uniform = (\<lambda>i. 1500), utcnow = (\<lambda>i. 7),
      db_ok = True, ci_index = False\<rparr>
     (begin_session [])
   = (Inr (0, 2),
      begin_session
        [\<lparr>name = JStr ''Nigeria'', capital = JNull, region = JNull, population = JInt 0,
          currency_code = JNull, exchange_rate = None, estimated_gdp = None, flag_url = JNull,
          last_refreshed_at = 7, id_col = 1\<rparr>,
         \<lparr>name = JStr ''NIGERIA'', capital = JNull, region = JNull, population = JInt 0,
          currency_code = JNull, exchange_rate = None, estimated_gdp = None, flag_url = JNull,
          last_refreshed_at = 7, id_col = 2\<rparr>])
   \<and> sql_lower ''Nigeria'' = sql_lower ''NIGERIA''
   \<and> fst (refresh_countries_data
     \<lparr>countries_response = HttpOk [JObj [(''name'', JStr ''Nigeria'')], JObj [(''name'', JStr ''NIGERIA'')]],
      rates_response = HttpOk None, uniform = (\<lambda>i. 1500), utcnow = (\<lambda>i. 7),
      db_ok = True, ci_index = False\<rparr>
     (begin_session
        [\<lparr>name = JStr ''Nigeria'', capital = JNull, region = JNull, population = JInt 0,
          currency_code = JNull, exchange_rate = None, estimated_gdp = None, flag_url = JNull,
          last_refreshed_at = 7, id_col = 1\<rparr>,
         \<lparr>name = JStr ''NIGERIA'', capital = JNull, region = JNull, population = JInt 0,
          currency_code = JNull, exchange_rate = None, estimated_gdp = None, flag_url = JNull,
          last_refreshed_at = 7, id_col = 2\<rparr>]))
   = Inl (Exception, ''Failed to refresh countries data: constraint violated'')"
  by (simp add: refresh_countries_data_def fetch_countries_def process_country_data_def
        dict_get_def fetch_exchange_rates_def process_country_for_db_def upsert_def
        get_country_by_name_def begin_session_def sql_lower_def lower_char_def loaded_def
        update_country_def commit_def flushed_def constraints_ok_def next_id_def new_country_def
        refresh_failed_def rollback_def)

end
